theory Spec2Isabelle
  imports Complex_Main "HOL-Library.Log_Nat" "HOL-Library.AList"
    "HOL-Library.Code_Target_Numeral"
begin

section \<open>JavaScript numbers\<close>

text \<open>
  Every number of \<^verbatim>\<open>server.js\<close> is an IEEE 754 binary64 value. A number is modelled
  as \<open>NaN\<close>, an infinity (\<open>Inf True\<close> is \<open>-Infinity\<close>) or a finite value \<open>Fin r\<close>, where
  \<open>r\<close> is the exact real value of the double. Each arithmetic operation computes the
  exact result and rounds it to the nearest double, ties to even, with gradual underflow
  and overflow to infinity (\<open>round64\<close>). The sign of a zero is not tracked: the only
  operation that could tell the two zeros apart is a division by zero, which yields the
  infinity of a positive zero here.
\<close>

datatype jsnum = NaN | Inf bool | Fin real

definition pow2 :: "int \<Rightarrow> real" where
  "pow2 k = (if 0 \<le> k then 2 ^ nat k else 1 / 2 ^ nat (- k))"

text \<open>The binary exponent of a positive real: \<open>pow2 e \<le> a < pow2 (e + 1)\<close>.\<close>

definition floorlog2 :: "real \<Rightarrow> int" where
  "floorlog2 a = (if 1 \<le> a then bitlen \<lfloor>a\<rfloor> - 1 else - bitlen (\<lceil>1 / a\<rceil> - 1))"

definition round_half_even :: "real \<Rightarrow> int" where
  "round_half_even n =
     (let f = \<lfloor>n\<rfloor>; d = n - of_int f
      in if d < 1 / 2 then f else if 1 / 2 < d then f + 1 else if even f then f else f + 1)"

text \<open>
  Rounding to binary64: 53 significant bits, least exponent \<open>-1022\<close> (below it the
  spacing stays \<open>pow2 (- 1074)\<close>), and a rounded magnitude of \<open>pow2 1024\<close> or more is an
  infinity.
\<close>

definition round64 :: "real \<Rightarrow> jsnum" where
  "round64 a =
     (if a = 0 then Fin 0
      else let m = \<bar>a\<bar>;
               e = max (floorlog2 m) (- 1022);
               q = pow2 (e - 52);
               y = of_int (round_half_even (m / q)) * q
           in if pow2 1024 \<le> y then Inf (a < 0) else Fin (if a < 0 then - y else y))"

text \<open>A real is a double when rounding leaves it as it is.\<close>

definition is_double :: "real \<Rightarrow> bool" where
  "is_double r \<longleftrightarrow> round64 r = Fin r"

fun is_number :: "jsnum \<Rightarrow> bool" where
  "is_number (Fin r) = is_double r"
| "is_number _ = True"

fun jsneg :: "jsnum \<Rightarrow> jsnum" where
  "jsneg NaN = NaN"
| "jsneg (Inf s) = Inf (\<not> s)"
| "jsneg (Fin a) = Fin (- a)"

fun jsmul :: "jsnum \<Rightarrow> jsnum \<Rightarrow> jsnum" where
  "jsmul NaN _ = NaN"
| "jsmul _ NaN = NaN"
| "jsmul (Inf s) (Inf t) = Inf (s \<noteq> t)"
| "jsmul (Inf s) (Fin b) = (if b = 0 then NaN else Inf (s \<noteq> (b < 0)))"
| "jsmul (Fin a) (Inf t) = (if a = 0 then NaN else Inf ((a < 0) \<noteq> t))"
| "jsmul (Fin a) (Fin b) = round64 (a * b)"

fun jsdiv :: "jsnum \<Rightarrow> jsnum \<Rightarrow> jsnum" where
  "jsdiv NaN _ = NaN"
| "jsdiv _ NaN = NaN"
| "jsdiv (Inf s) (Inf t) = NaN"
| "jsdiv (Inf s) (Fin b) = Inf (s \<noteq> (b < 0))"
| "jsdiv (Fin a) (Inf t) = Fin 0"
| "jsdiv (Fin a) (Fin b) =
     (if b = 0 then (if a = 0 then NaN else Inf (a < 0)) else round64 (a / b))"

fun jsadd :: "jsnum \<Rightarrow> jsnum \<Rightarrow> jsnum" where
  "jsadd NaN _ = NaN"
| "jsadd _ NaN = NaN"
| "jsadd (Inf s) (Inf t) = (if s = t then Inf s else NaN)"
| "jsadd (Inf s) (Fin b) = Inf s"
| "jsadd (Fin a) (Inf t) = Inf t"
| "jsadd (Fin a) (Fin b) = round64 (a + b)"

definition jssub :: "jsnum \<Rightarrow> jsnum \<Rightarrow> jsnum" where
  "jssub a b = jsadd a (jsneg b)"

text \<open>The comparisons \<^verbatim>\<open><\<close>, \<^verbatim>\<open><=\<close> and \<^verbatim>\<open>>\<close>: false whenever an operand is \<open>NaN\<close>.\<close>

fun jslt :: "jsnum \<Rightarrow> jsnum \<Rightarrow> bool" where
  "jslt NaN _ = False"
| "jslt _ NaN = False"
| "jslt (Inf s) (Inf t) = (s \<and> \<not> t)"
| "jslt (Inf s) (Fin b) = s"
| "jslt (Fin a) (Inf t) = (\<not> t)"
| "jslt (Fin a) (Fin b) = (a < b)"

fun jsle :: "jsnum \<Rightarrow> jsnum \<Rightarrow> bool" where
  "jsle NaN _ = False"
| "jsle _ NaN = False"
| "jsle (Inf s) (Inf t) = (s \<or> \<not> t)"
| "jsle (Inf s) (Fin b) = s"
| "jsle (Fin a) (Inf t) = (\<not> t)"
| "jsle (Fin a) (Fin b) = (a \<le> b)"

definition jsgt :: "jsnum \<Rightarrow> jsnum \<Rightarrow> bool" where
  "jsgt a b = jslt b a"

text \<open>Truthiness of a number: \<open>0\<close> and \<open>NaN\<close> are falsy.\<close>

fun truthy :: "jsnum \<Rightarrow> bool" where
  "truthy NaN = False"
| "truthy (Inf s) = True"
| "truthy (Fin a) = (a \<noteq> 0)"

text \<open>A \<^verbatim>\<open>Date\<close> is its time value, an integer count of milliseconds.\<close>

definition date_number :: "int \<Rightarrow> jsnum" where
  "date_number t = round64 (of_int t)"

section \<open>Strings and request values\<close>

text \<open>The decimal digits of a natural number, and the number that a digit string denotes.\<close>

definition digit_char :: "nat \<Rightarrow> char" where
  "digit_char d = ''0123456789'' ! d"

fun digits :: "nat \<Rightarrow> string" where
  "digits n = (if n < 10 then [digit_char n] else digits (n div 10) @ [digit_char (n mod 10)])"

definition digit_value :: "char \<Rightarrow> nat" where
  "digit_value c = of_char c - 48"

definition digits_number :: "string \<Rightarrow> nat" where
  "digits_number ds = foldl (\<lambda>a c. 10 * a + digit_value c) 0 ds"

text \<open>
  The conversion of a string to a number, which \<^verbatim>\<open><=\<close>, \<^verbatim>\<open>>\<close> and \<^verbatim>\<open>*\<close> apply to a
  string operand: white space around the text is dropped, the empty text is \<open>0\<close>, a
  decimal literal (with an optional sign, fraction and exponent), \<^verbatim>\<open>Infinity\<close> and the
  unsigned literals in base 16, 8 and 2 denote their value rounded to a double, and any
  other text is \<open>NaN\<close>.
\<close>

definition is_space :: "char \<Rightarrow> bool" where
  "is_space c \<longleftrightarrow> (of_char c :: nat) \<in> {9, 10, 11, 12, 13, 32, 160}"

definition trim :: "string \<Rightarrow> string" where
  "trim s = rev (dropWhile is_space (rev (dropWhile is_space s)))"

definition is_digit :: "char \<Rightarrow> bool" where
  "is_digit c \<longleftrightarrow> c \<in> set ''0123456789''"

definition base_digit_value :: "char \<Rightarrow> nat" where
  "base_digit_value c =
     (if c \<in> set ''0123456789'' then of_char c - 48
      else if c \<in> set ''abcdef'' then of_char c - 87
      else if c \<in> set ''ABCDEF'' then of_char c - 55
      else 16)"

definition base_number :: "nat \<Rightarrow> string \<Rightarrow> nat" where
  "base_number b ds = foldl (\<lambda>a c. b * a + base_digit_value c) 0 ds"

definition base_literal :: "nat \<Rightarrow> string \<Rightarrow> jsnum" where
  "base_literal b ds =
     (if ds \<noteq> [] \<and> list_all (\<lambda>c. base_digit_value c < b) ds
      then round64 (of_nat (base_number b ds)) else NaN)"

definition unsigned_digits :: "string \<Rightarrow> int option" where
  "unsigned_digits ds =
     (if ds \<noteq> [] \<and> list_all is_digit ds then Some (int (digits_number ds)) else None)"

definition exponent_part :: "string \<Rightarrow> int option" where
  "exponent_part s =
     (if s = [] then Some 0
      else if hd s = CHR ''e'' \<or> hd s = CHR ''E'' then
        (if tl s \<noteq> [] \<and> hd (tl s) = CHR ''+'' then unsigned_digits (tl (tl s))
         else if tl s \<noteq> [] \<and> hd (tl s) = CHR ''-''
           then map_option uminus (unsigned_digits (tl (tl s)))
         else unsigned_digits (tl s))
      else None)"

definition unsigned_decimal :: "string \<Rightarrow> jsnum" where
  "unsigned_decimal s =
     (if s = ''Infinity'' then Inf False
      else
        let ip = takeWhile is_digit s;
            r1 = dropWhile is_digit s;
            dot = (r1 \<noteq> [] \<and> hd r1 = CHR ''.'');
            fp = (if dot then takeWhile is_digit (tl r1) else []);
            r2 = (if dot then dropWhile is_digit (tl r1) else r1)
        in if ip = [] \<and> fp = [] then NaN
           else case exponent_part r2 of
                  None \<Rightarrow> NaN
                | Some e \<Rightarrow>
                    round64 (of_nat (digits_number (ip @ fp)) * 10 powi (e - int (length fp))))"

definition string_to_number :: "string \<Rightarrow> jsnum" where
  "string_to_number str =
     (let s = trim str
      in if s = [] then Fin 0
         else if hd s = CHR ''+'' then unsigned_decimal (tl s)
         else if hd s = CHR ''-'' then jsneg (unsigned_decimal (tl s))
         else if take 2 s = ''0x'' \<or> take 2 s = ''0X'' then base_literal 16 (drop 2 s)
         else if take 2 s = ''0o'' \<or> take 2 s = ''0O'' then base_literal 8 (drop 2 s)
         else if take 2 s = ''0b'' \<or> take 2 s = ''0B'' then base_literal 2 (drop 2 s)
         else unsigned_decimal s)"

text \<open>
  The conversion of a number to a string, which \<^verbatim>\<open>+\<close> applies to a number next to a
  string. For a positive double \<open>x\<close> it takes the fewest decimal digits \<open>s\<close> (at most
  17) with an exponent \<open>n\<close> such that \<open>s * 10 powi (n - k)\<close> rounds to \<open>x\<close>, the closest
  to \<open>x\<close> among those, and writes them without an exponent when \<open>- 6 < n \<le> 21\<close>.
  \<open>decimal_exponent x\<close> is the \<open>n\<close> with \<open>10 powi (n - 1) \<le> x < 10 powi n\<close>.
\<close>

definition decimal_exponent :: "real \<Rightarrow> int" where
  "decimal_exponent x =
     (if 1 \<le> x then int (floorlog 10 (nat \<lfloor>x\<rfloor>))
      else 1 - int (floorlog 10 (nat (\<lceil>1 / x\<rceil> - 1))))"

fun shortest_digits :: "nat \<Rightarrow> nat \<Rightarrow> real \<Rightarrow> int \<Rightarrow> int \<times> nat" where
  "shortest_digits 0 k x n = (round_half_even (x / 10 powi (n - int k)), k)"
| "shortest_digits (Suc f) k x n =
     (let sc = 10 powi (n - int k);
          lo = \<lfloor>x / sc\<rfloor>;
          hi = \<lceil>x / sc\<rceil>;
          vlo = (round64 (of_int lo * sc) = Fin x);
          vhi = (round64 (of_int hi * sc) = Fin x)
      in if vlo \<and> vhi then
           (if x - of_int lo * sc < of_int hi * sc - x then (lo, k)
            else if of_int hi * sc - x < x - of_int lo * sc then (hi, k)
            else if even lo then (lo, k) else (hi, k))
         else if vlo then (lo, k)
         else if vhi then (hi, k)
         else shortest_digits f (Suc k) x n)"

definition positive_to_string :: "real \<Rightarrow> string" where
  "positive_to_string x =
     (let n0 = decimal_exponent x;
          sk = shortest_digits 16 1 x n0;
          ds0 = digits (nat (fst sk));
          n = n0 + (int (length ds0) - int (snd sk));
          ds = rev (dropWhile (\<lambda>c. c = CHR ''0'') (rev ds0));
          k = int (length ds)
      in if k \<le> n \<and> n \<le> 21 then ds @ replicate (nat (n - k)) (CHR ''0'')
         else if 0 < n \<and> n \<le> 21 then take (nat n) ds @ ''.'' @ drop (nat n) ds
         else if - 6 < n \<and> n \<le> 0 then ''0.'' @ replicate (nat (- n)) (CHR ''0'') @ ds
         else
           let e = n - 1;
               es = (if 0 \<le> e then ''+'' else ''-'') @ digits (nat \<bar>e\<bar>)
           in if k = 1 then ds @ ''e'' @ es else hd ds # ''.'' @ tl ds @ ''e'' @ es)"

definition number_to_string :: "jsnum \<Rightarrow> string" where
  "number_to_string v =
     (case v of
        NaN \<Rightarrow> ''NaN''
      | Inf s \<Rightarrow> (if s then ''-Infinity'' else ''Infinity'')
      | Fin a \<Rightarrow> if a = 0 then ''0''
                 else if a < 0 then CHR ''-'' # positive_to_string (- a)
                 else positive_to_string a)"

text \<open>
  The \<^verbatim>\<open>hours\<close> field of a request body is used as it arrives, so it is any primitive
  value of JSON: a number, a string or a boolean (arrays and objects are left out); a
  field that is absent or \<^verbatim>\<open>null\<close> is \<open>None\<close>. The same values are what a session keeps
  as \<^verbatim>\<open>totalHours\<close> and what the tracking totals become.
\<close>

datatype jsprim = PNum jsnum | PStr string | PBool bool

fun prim_truthy :: "jsprim \<Rightarrow> bool" where
  "prim_truthy (PNum n) = truthy n"
| "prim_truthy (PStr s) = (s \<noteq> [])"
| "prim_truthy (PBool b) = b"

text \<open>The number a value is in a comparison with a number, or in a product.\<close>

fun prim_number :: "jsprim \<Rightarrow> jsnum" where
  "prim_number (PNum n) = n"
| "prim_number (PStr s) = string_to_number s"
| "prim_number (PBool b) = (if b then Fin 1 else Fin 0)"

fun prim_string :: "jsprim \<Rightarrow> string" where
  "prim_string (PNum n) = number_to_string n"
| "prim_string (PStr s) = s"
| "prim_string (PBool b) = (if b then ''true'' else ''false'')"

text \<open>
  \<open>falsy\<close> is \<^verbatim>\<open>!x\<close>, \<open>or_else x d\<close> is \<^verbatim>\<open>x || d\<close>, \<open>or_null\<close> is \<^verbatim>\<open>x || null\<close>, and
  \<open>to_number\<close> is the number of a value that may be \<^verbatim>\<open>null\<close>, which counts as \<open>0\<close>.
\<close>

fun falsy :: "jsprim option \<Rightarrow> bool" where
  "falsy None = True"
| "falsy (Some v) = (\<not> prim_truthy v)"

fun or_else :: "jsprim option \<Rightarrow> jsprim \<Rightarrow> jsprim" where
  "or_else None d = d"
| "or_else (Some v) d = (if prim_truthy v then v else d)"

fun or_null :: "jsprim option \<Rightarrow> jsprim option" where
  "or_null None = None"
| "or_null (Some v) = (if prim_truthy v then Some v else None)"

fun to_number :: "jsprim option \<Rightarrow> jsnum" where
  "to_number None = Fin 0"
| "to_number (Some v) = prim_number v"

text \<open>
  \<^verbatim>\<open>a + b\<close>: when either operand is a string it is the concatenation of the two operands
  as strings (\<^verbatim>\<open>null\<close> as the text \<^verbatim>\<open>null\<close>), and otherwise the sum of the two as
  numbers.
\<close>

fun is_string :: "jsprim option \<Rightarrow> bool" where
  "is_string (Some (PStr s)) = True"
| "is_string _ = False"

fun to_string :: "jsprim option \<Rightarrow> string" where
  "to_string None = ''null''"
| "to_string (Some v) = prim_string v"

definition js_plus :: "jsprim \<Rightarrow> jsprim option \<Rightarrow> jsprim" where
  "js_plus a b =
     (if is_string (Some a) \<or> is_string b then PStr (prim_string a @ to_string b)
      else PNum (jsadd (prim_number a) (to_number b)))"

text \<open>
  \<^verbatim>\<open>x.toFixed(1)\<close> is a method of numbers only: on a string or a boolean the property
  read gives \<^verbatim>\<open>undefined\<close> and the call throws a \<^verbatim>\<open>TypeError\<close>. Where it succeeds, the
  model keeps the number it was applied to.
\<close>

datatype js_error = TypeError

fun toFixed :: "jsprim \<Rightarrow> js_error + jsnum" where
  "toFixed (PNum n) = Inr n"
| "toFixed (PStr s) = Inl TypeError"
| "toFixed (PBool b) = Inl TypeError"

section \<open>Configuration\<close>

definition MAX_HOURS_PER_DAY :: jsnum where "MAX_HOURS_PER_DAY = Fin 4"
definition MAX_HOURS_PER_WEEK :: jsnum where "MAX_HOURS_PER_WEEK = Fin 12"
definition MAX_HOURS_PER_YEAR :: jsnum where "MAX_HOURS_PER_YEAR = Fin 100"

text \<open>
  \<^verbatim>\<open>OVERTIME_MULTIPLIERS\<close> is an object literal, and \<^verbatim>\<open>OVERTIME_MULTIPLIERS[k]\<close> is a
  property read: it finds the four own properties, and for the names that every object
  inherits from \<^verbatim>\<open>Object.prototype\<close> it finds the inherited function (or, for
  \<^verbatim>\<open>__proto__\<close>, the prototype object). Every other name reads as \<^verbatim>\<open>undefined\<close>.
\<close>

datatype jsval = Undefined | Num jsnum | Obj

definition object_prototype_names :: "string list" where
  "object_prototype_names =
     [''constructor'', ''hasOwnProperty'', ''isPrototypeOf'', ''propertyIsEnumerable'',
      ''toLocaleString'', ''toString'', ''valueOf'', ''__proto__'',
      ''__defineGetter__'', ''__defineSetter__'', ''__lookupGetter__'', ''__lookupSetter__'']"

definition OVERTIME_MULTIPLIERS :: "string \<Rightarrow> jsval" where
  "OVERTIME_MULTIPLIERS k =
     (if k = ''normal'' then Num (Fin (3 / 2))
      else if k = ''night'' then Num (Fin (7 / 4))
      else if k = ''sunday'' then Num (Fin 2)
      else if k = ''holiday'' then Num (Fin (5 / 2))
      else if k \<in> set object_prototype_names then Obj
      else Undefined)"

text \<open>\<^verbatim>\<open>v || 1.5\<close> on a property value, and the number a value is in a product.\<close>

fun val_or :: "jsval \<Rightarrow> jsnum \<Rightarrow> jsval" where
  "val_or Undefined d = Num d"
| "val_or (Num n) d = (if truthy n then Num n else Num d)"
| "val_or Obj d = Obj"

fun val_number :: "jsval \<Rightarrow> jsnum" where
  "val_number Undefined = NaN"
| "val_number (Num n) = n"
| "val_number Obj = NaN"

section \<open>Validation and pay\<close>

record tracking =
  weekly :: jsprim
  yearly :: jsprim

text \<open>
  The warnings are message texts built from the values involved; a warning is modelled
  by its kind and those values (current total, proposed hours, new total). The two
  totals are there as the numbers that \<^verbatim>\<open>toFixed\<close> was applied to.
\<close>

datatype warning =
    DailyLimitWarning
  | WeeklyLimitWarning jsnum jsprim jsnum
  | YearlyLimitWarning jsnum jsprim jsnum
  | SustainabilityWarning

record validation =
  isValid :: bool
  errors :: "string list"
  warnings :: "warning list"

type_synonym tracking_map = "string \<rightharpoonup> tracking"

definition get_tracking :: "tracking_map \<Rightarrow> string \<Rightarrow> tracking" where
  "get_tracking m userId =
     (case m userId of
        None \<Rightarrow> \<lparr>weekly = PNum (Fin 0), yearly = PNum (Fin 0)\<rparr>
      | Some t \<Rightarrow> t)"

text \<open>
  The text of a limit warning: the two \<^verbatim>\<open>toFixed\<close> calls in it are made in the order
  of the template, and the first that throws ends the function.
\<close>

definition limit_warning ::
  "(jsnum \<Rightarrow> jsprim \<Rightarrow> jsnum \<Rightarrow> warning) \<Rightarrow> jsprim \<Rightarrow> jsprim \<Rightarrow> jsprim \<Rightarrow> js_error + warning list" where
  "limit_warning kind current hours newTotal =
     (case toFixed current of
        Inl e \<Rightarrow> Inl e
      | Inr c \<Rightarrow> (case toFixed newTotal of Inl e \<Rightarrow> Inl e | Inr n \<Rightarrow> Inr [kind c hours n]))"

text \<open>\<open>Inl\<close> is an exception thrown out of the function.\<close>

definition validateOvertimeHours ::
  "tracking_map \<Rightarrow> jsprim \<Rightarrow> string \<Rightarrow> string \<Rightarrow> js_error + validation" where
  "validateOvertimeHours m hours type userId =
     (let errs = (if jsle (prim_number hours) (Fin 0)
                  then [''Overtime hours must be greater than 0''] else []);
          w1 = (if jsgt (prim_number hours) MAX_HOURS_PER_DAY then [DailyLimitWarning] else []);
          userTracking = get_tracking m userId;
          newWeeklyTotal = js_plus (weekly userTracking) (Some hours);
          r2 = (if jsgt (prim_number newWeeklyTotal) MAX_HOURS_PER_WEEK
                then limit_warning WeeklyLimitWarning (weekly userTracking) hours newWeeklyTotal
                else Inr [])
      in case r2 of
           Inl e \<Rightarrow> Inl e
         | Inr w2 \<Rightarrow>
             let newYearlyTotal = js_plus (yearly userTracking) (Some hours);
                 r3 = (if jsgt (prim_number newYearlyTotal) MAX_HOURS_PER_YEAR
                       then limit_warning YearlyLimitWarning (yearly userTracking) hours
                              newYearlyTotal
                       else Inr [])
             in case r3 of
                  Inl e \<Rightarrow> Inl e
                | Inr w3 \<Rightarrow>
                    let w4 = (if jsgt (prim_number hours) (Fin 8)
                              then [SustainabilityWarning] else [])
                    in Inr \<lparr>isValid = (errs = []), errors = errs,
                            warnings = w1 @ w2 @ w3 @ w4\<rparr>)"

definition calculateHourlyRate :: "jsnum \<Rightarrow> jsnum \<Rightarrow> jsnum" where
  "calculateHourlyRate salary dailyHours = jsdiv salary (jsmul (Fin 30) dailyHours)"

record calculation =
  hourlyRate :: jsnum
  multiplier :: jsval
  totalPay :: jsnum
  ratePerSecond :: jsnum

definition calculateOvertimePayFromRate :: "jsnum \<Rightarrow> string \<Rightarrow> jsnum \<Rightarrow> calculation" where
  "calculateOvertimePayFromRate rate overtimeType hours =
     (let mult = val_or (OVERTIME_MULTIPLIERS overtimeType) (Fin (3 / 2));
          pay = jsmul (jsmul rate (val_number mult)) hours;
          perSecond = jsdiv pay (jsmul hours (Fin 3600))
      in \<lparr>hourlyRate = rate, multiplier = mult, totalPay = pay, ratePerSecond = perSecond\<rparr>)"

definition calculateOvertimePay :: "jsnum \<Rightarrow> jsnum \<Rightarrow> string \<Rightarrow> jsnum \<Rightarrow> calculation" where
  "calculateOvertimePay salary dailyHours overtimeType hours =
     calculateOvertimePayFromRate (calculateHourlyRate salary dailyHours) overtimeType hours"

text \<open>\<^verbatim>\<open>current.weekly += hours\<close>, with the session's \<^verbatim>\<open>totalHours\<close> for \<^verbatim>\<open>hours\<close>.\<close>

definition updateUserOvertimeTracking :: "string \<Rightarrow> jsprim option \<Rightarrow> tracking_map \<Rightarrow> tracking_map" where
  "updateUserOvertimeTracking userId hours m =
     (let current = get_tracking m userId
      in m(userId \<mapsto> \<lparr>weekly = js_plus (weekly current) hours,
                        yearly = js_plus (yearly current) hours\<rparr>))"

section \<open>Sessions\<close>

text \<open>
  A session object. \<open>s_id\<close>, \<open>s_hourlyRate\<close>, \<open>s_calculation\<close> and \<open>s_warnings\<close> are the
  properties \<^verbatim>\<open>id\<close>, \<^verbatim>\<open>hourlyRate\<close>, \<^verbatim>\<open>calculation\<close> and \<^verbatim>\<open>warnings\<close>. The four
  properties that start-session does not set are \<open>None\<close> while they are
  \<^verbatim>\<open>undefined\<close>; \<open>remainingTime = Some None\<close> is \<^verbatim>\<open>null\<close>.
\<close>

record session =
  s_id :: string
  s_hourlyRate :: jsnum
  overtimeType :: string
  totalHours :: "jsprim option"
  s_calculation :: calculation
  startTime :: int
  isActive :: bool
  currentEarnings :: jsnum
  s_warnings :: "warning list"
  isOpenEnded :: bool
  endTime :: "int option"
  duration :: "jsnum option"
  elapsedTime :: "jsnum option"
  remainingTime :: "jsnum option option"

text \<open>
  The two process-wide maps. \<^verbatim>\<open>sessions\<close> is a \<^verbatim>\<open>Map\<close>, iterated in insertion order:
  an association list, where \<open>AList.update\<close> replaces the value of a present key in
  place and appends a new key at the end, as \<^verbatim>\<open>Map.prototype.set\<close> does.
\<close>

record state =
  sessions :: "(string \<times> session) list"
  userOvertimeTracking :: tracking_map

definition initial_state :: state where
  "initial_state = \<lparr>sessions = [], userOvertimeTracking = Map.empty\<rparr>"

text \<open>\<^verbatim>\<open>Date.now().toString()\<close>: the decimal digits of an integer.\<close>

definition toString :: "int \<Rightarrow> string" where
  "toString t = (if t < 0 then CHR ''-'' # digits (nat (- t)) else digits (nat t))"

fun join :: "string \<Rightarrow> string list \<Rightarrow> string" where
  "join sep [] = []"
| "join sep [x] = x"
| "join sep (x # y # ys) = x @ sep @ join sep (y # ys)"

section \<open>Routes\<close>

text \<open>
  An error response is its status code and its \<^verbatim>\<open>error\<close> text. An exception that a
  handler throws is answered by the framework with status 500; the text is then the name
  of the exception.
\<close>

type_synonym http_error = "nat \<times> string"

definition uncaught :: "js_error \<Rightarrow> http_error" where
  "uncaught e = (case e of TypeError \<Rightarrow> (500, ''TypeError''))"

record calculate_response =
  c_calculation :: calculation
  c_warnings :: "warning list"
  isPreview :: bool

text \<open>\<^verbatim>\<open>POST /api/calculate\<close>\<close>

definition calculate ::
  "state \<Rightarrow> jsnum option \<Rightarrow> string option \<Rightarrow> jsprim option \<Rightarrow> http_error + calculate_response" where
  "calculate st rate type hours =
     (case (rate, type) of
        (Some r, Some t) \<Rightarrow>
          if \<not> truthy r \<or> t = [] then Inl (400, ''Hourly rate and overtime type are required'')
          else if jsle r (Fin 0) then Inl (400, ''Invalid hourly rate'')
          else
            let hoursToUse = or_else hours (PNum (Fin 1))
            in case validateOvertimeHours (userOvertimeTracking st) hoursToUse t ''default'' of
                 Inl e \<Rightarrow> Inl (uncaught e)
               | Inr v \<Rightarrow>
                   if \<not> isValid v then Inl (400, join '', '' (errors v))
                   else Inr \<lparr>c_calculation =
                               calculateOvertimePayFromRate r t (prim_number hoursToUse),
                             c_warnings = warnings v,
                             isPreview = falsy hours\<rparr>
      | _ \<Rightarrow> Inl (400, ''Hourly rate and overtime type are required''))"

record start_response =
  sessionId :: string
  r_calculation :: calculation
  r_warnings :: "warning list"
  r_isOpenEnded :: bool

text \<open>
  \<^verbatim>\<open>POST /api/start-session\<close>. The handler reads the clock twice: \<open>idNow\<close> is the value
  of \<^verbatim>\<open>Date.now()\<close> and \<open>startNow\<close> the time value of the later \<^verbatim>\<open>new Date()\<close>.
\<close>

definition start_session ::
  "int \<Rightarrow> int \<Rightarrow> jsnum option \<Rightarrow> string option \<Rightarrow> jsprim option \<Rightarrow> state
     \<Rightarrow> state \<times> (http_error + start_response)" where
  "start_session idNow startNow rate type hours st =
     (case (rate, type) of
        (Some r, Some t) \<Rightarrow>
          if \<not> truthy r \<or> t = [] then (st, Inl (400, ''Hourly rate and overtime type are required''))
          else if jsle r (Fin 0) then (st, Inl (400, ''Invalid hourly rate''))
          else
            let total = or_null hours;
                hoursToUse = or_else total (PNum (Fin 1))
            in case validateOvertimeHours (userOvertimeTracking st) hoursToUse t ''default'' of
                 Inl e \<Rightarrow> (st, Inl (uncaught e))
               | Inr v \<Rightarrow>
                   if \<not> isValid v then (st, Inl (400, join '', '' (errors v)))
                   else
                     let calc = calculateOvertimePayFromRate r t (prim_number hoursToUse);
                         sid = toString idNow;
                         s = \<lparr>s_id = sid, s_hourlyRate = r, overtimeType = t,
                              totalHours = total, s_calculation = calc, startTime = startNow,
                              isActive = True, currentEarnings = Fin 0, s_warnings = warnings v,
                              isOpenEnded = falsy total, endTime = None, duration = None,
                              elapsedTime = None, remainingTime = None\<rparr>
                     in (st\<lparr>sessions := AList.update sid s (sessions st)\<rparr>,
                         Inr \<lparr>sessionId = sid, r_calculation = calc, r_warnings = warnings v,
                              r_isOpenEnded = falsy total\<rparr>)
      | _ \<Rightarrow> (st, Inl (400, ''Hourly rate and overtime type are required'')))"

text \<open>Seconds between two time values: \<^verbatim>\<open>(now - startTime) / 1000\<close>.\<close>

definition seconds_between :: "int \<Rightarrow> int \<Rightarrow> jsnum" where
  "seconds_between now start = jsdiv (jssub (date_number now) (date_number start)) (Fin 1000)"

text \<open>\<^verbatim>\<open>POST /api/stop-session/:sessionId\<close>\<close>

definition stop_session :: "int \<Rightarrow> string \<Rightarrow> state \<Rightarrow> state \<times> (http_error + session)" where
  "stop_session now sid st =
     (case map_of (sessions st) sid of
        None \<Rightarrow> (st, Inl (404, ''Session not found''))
      | Some s \<Rightarrow>
          let s' = s\<lparr>isActive := False, endTime := Some now,
                     duration := Some (seconds_between now (startTime s))\<rparr>
          in (st\<lparr>sessions := AList.update sid s' (sessions st),
                 userOvertimeTracking :=
                   updateUserOvertimeTracking ''default'' (totalHours s') (userOvertimeTracking st)\<rparr>,
              Inr s'))"

text \<open>\<^verbatim>\<open>GET /api/sessions\<close> and \<^verbatim>\<open>GET /api/overtime-tracking\<close> read the maps only.\<close>

definition get_sessions :: "state \<Rightarrow> state \<times> session list" where
  "get_sessions st = (st, map snd (sessions st))"

definition overtime_tracking :: "state \<Rightarrow> state \<times> tracking" where
  "overtime_tracking st = (st, get_tracking (userOvertimeTracking st) ''default'')"

text \<open>
  \<^verbatim>\<open>GET /api/session-status/:sessionId\<close>: the update it applies to the session object,
  then the handler.
\<close>

definition status_update :: "int \<Rightarrow> session \<Rightarrow> session" where
  "status_update now s =
     (if isActive s then
        let elapsedSeconds = seconds_between now (startTime s)
        in if isOpenEnded s then
             s\<lparr>currentEarnings := jsmul (ratePerSecond (s_calculation s)) elapsedSeconds,
               elapsedTime := Some elapsedSeconds,
               remainingTime := Some None\<rparr>
           else
             let maxSeconds = jsmul (to_number (totalHours s)) (Fin 3600)
             in if jslt elapsedSeconds maxSeconds then
                  s\<lparr>currentEarnings := jsmul (ratePerSecond (s_calculation s)) elapsedSeconds,
                    elapsedTime := Some elapsedSeconds,
                    remainingTime := Some (Some (jssub maxSeconds elapsedSeconds))\<rparr>
                else
                  s\<lparr>isActive := False, endTime := Some now, duration := Some elapsedSeconds,
                    currentEarnings := totalPay (s_calculation s),
                    elapsedTime := Some elapsedSeconds,
                    remainingTime := Some (Some (Fin 0))\<rparr>
      else s)"

record status_response =
  q_currentEarnings :: jsnum
  q_elapsedTime :: "jsnum option"
  q_remainingTime :: "jsnum option option"
  q_isOpenEnded :: bool
  q_isActive :: bool

definition session_status ::
  "int \<Rightarrow> string \<Rightarrow> state \<Rightarrow> state \<times> (http_error + status_response)" where
  "session_status now sid st =
     (case map_of (sessions st) sid of
        None \<Rightarrow> (st, Inl (404, ''Session not found''))
      | Some s \<Rightarrow>
          let s' = status_update now s
          in (st\<lparr>sessions := AList.update sid s' (sessions st)\<rparr>,
              Inr \<lparr>q_currentEarnings = currentEarnings s', q_elapsedTime = elapsedTime s',
                   q_remainingTime = remainingTime s', q_isOpenEnded = isOpenEnded s',
                   q_isActive = isActive s'\<rparr>))"

section \<open>The scheduler\<close>

text \<open>
  An event is sent to the room of a session id. \<open>EarningsUpdate\<close> carries
  \<^verbatim>\<open>currentEarnings\<close>, \<^verbatim>\<open>elapsedTime\<close>, \<^verbatim>\<open>remainingTime\<close> (\<open>None\<close> is \<^verbatim>\<open>null\<close>) and
  \<^verbatim>\<open>isOpenEnded\<close>; \<open>SessionComplete\<close> carries \<^verbatim>\<open>finalEarnings\<close> and \<^verbatim>\<open>totalDuration\<close>.
\<close>

datatype event =
    EarningsUpdate string jsnum jsnum "jsnum option" bool
  | SessionComplete string jsnum jsnum

text \<open>The body of the \<^verbatim>\<open>forEach\<close> callback, for one entry of the map.\<close>

definition tick_session :: "int \<Rightarrow> string \<Rightarrow> session \<Rightarrow> session \<times> event list" where
  "tick_session now sid s =
     (if isActive s then
        let elapsedSeconds = seconds_between now (startTime s)
        in if isOpenEnded s then
             let s' = s\<lparr>currentEarnings := jsmul (ratePerSecond (s_calculation s)) elapsedSeconds\<rparr>
             in (s', [EarningsUpdate sid (currentEarnings s') elapsedSeconds None True])
           else
             let maxSeconds = jsmul (to_number (totalHours s)) (Fin 3600)
             in if jslt elapsedSeconds maxSeconds then
                  let s' = s\<lparr>currentEarnings :=
                               jsmul (ratePerSecond (s_calculation s)) elapsedSeconds\<rparr>
                  in (s', [EarningsUpdate sid (currentEarnings s') elapsedSeconds
                             (Some (jssub maxSeconds elapsedSeconds)) False])
                else
                  let s' = s\<lparr>isActive := False, endTime := Some now,
                             duration := Some elapsedSeconds,
                             currentEarnings := totalPay (s_calculation s)\<rparr>
                  in (s', [SessionComplete sid (currentEarnings s') elapsedSeconds])
      else (s, []))"

text \<open>
  One firing of the interval timer. Each active session reads the clock by itself:
  \<open>clock k\<close> is the time value read while the entry with key \<open>k\<close> is processed. The
  events are in the order of the iteration.
\<close>

definition tick :: "(string \<Rightarrow> int) \<Rightarrow> state \<Rightarrow> state \<times> event list" where
  "tick clock st =
     (let rs = map (\<lambda>(k, s). (k, tick_session (clock k) k s)) (sessions st)
      in (st\<lparr>sessions := map (\<lambda>(k, r). (k, fst r)) rs\<rparr>, concat (map (\<lambda>(k, r). snd r) rs)))"

section \<open>Notions used in the statements\<close>

text \<open>The room an event is sent to.\<close>

fun event_room :: "event \<Rightarrow> string" where
  "event_room (EarningsUpdate k _ _ _ _) = k"
| "event_room (SessionComplete k _ _) = k"

text \<open>A clock that reads \<open>t\<close> for every session of a sweep.\<close>

definition clock_at :: "int \<Rightarrow> string \<Rightarrow> int" where
  "clock_at t k = t"

text \<open>
  A fixed-duration session after its natural completion at time \<open>now\<close>, as far as the
  scheduler writes it.
\<close>

definition completed :: "int \<Rightarrow> session \<Rightarrow> session" where
  "completed now s =
     s\<lparr>isActive := False, endTime := Some now,
       duration := Some (seconds_between now (startTime s)),
       currentEarnings := totalPay (s_calculation s)\<rparr>"

text \<open>
  The running example: from the initial state, a one-hour session of type \<^verbatim>\<open>normal\<close> at
  an hourly rate of 20, started when the clock reads 0. \<open>example_session\<close> is the
  session object this stores under the id \<^verbatim>\<open>0\<close>.
\<close>

definition fixed_example :: state where
  "fixed_example =
     fst (start_session 0 0 (Some (Fin 20)) (Some ''normal'') (Some (PNum (Fin 1))) initial_state)"

definition example_session :: session where
  "example_session =
     \<lparr>s_id = ''0'', s_hourlyRate = Fin 20, overtimeType = ''normal'', totalHours = Some (PNum (Fin 1)),
      s_calculation = \<lparr>hourlyRate = Fin 20, multiplier = Num (Fin (3 / 2)), totalPay = Fin 30,
                        ratePerSecond = Fin (4803839602528529 / 576460752303423488)\<rparr>,
      startTime = 0, isActive = True, currentEarnings = Fin 0, s_warnings = [],
      isOpenEnded = False, endTime = None, duration = None, elapsedTime = None,
      remainingTime = None\<rparr>"

text \<open>
  The number a session id denotes (the conversion \<^verbatim>\<open>Number(id)\<close> on a decimal string),
  by which ids are compared.
\<close>

definition id_number :: "string \<Rightarrow> int" where
  "id_number k =
     (case k of
        [] \<Rightarrow> 0
      | c # ds \<Rightarrow> if c = CHR ''-'' then - int (digits_number ds) else int (digits_number k))"

text \<open>
  The keys of the session map are distinct, and each session is stored under its own id.
\<close>

definition ids_consistent :: "state \<Rightarrow> bool" where
  "ids_consistent st \<longleftrightarrow>
     distinct (map fst (sessions st)) \<and> list_all (\<lambda>(k, s). s_id s = k) (sessions st)"

text \<open>
  The states of the server: the initial one, and those that a handler that writes to a
  map, or a firing of the timer, makes from a state.
\<close>

inductive reachable :: "state \<Rightarrow> bool" where
  init: "reachable initial_state"
| start: "reachable st \<Longrightarrow> reachable (fst (start_session idNow startNow rate type hours st))"
| stop: "reachable st \<Longrightarrow> reachable (fst (stop_session now sid st))"
| status: "reachable st \<Longrightarrow> reachable (fst (session_status now sid st))"
| sweep: "reachable st \<Longrightarrow> reachable (fst (tick clock st))"

text \<open>
  Magnitudes between \<open>pow2 (- k)\<close> and \<open>pow2 k\<close>, and the values within one rounding
  (a relative error of \<open>1 / 2 ^ 53\<close>) of a positive real.
\<close>

definition in_range :: "int \<Rightarrow> real \<Rightarrow> bool" where
  "in_range k x \<longleftrightarrow> pow2 (- k) \<le> x \<and> x \<le> pow2 k"

definition near :: "real \<Rightarrow> real \<Rightarrow> bool" where
  "near x y \<longleftrightarrow> x * (1 - 1 / 2 ^ 53) \<le> y \<and> y \<le> x * (1 + 1 / 2 ^ 53)"

text \<open>
  The multiplier as the specification gives it: 1.5 for \<^verbatim>\<open>normal\<close>, 1.75 for
  \<^verbatim>\<open>night\<close>, 2.0 for \<^verbatim>\<open>sunday\<close>, 2.5 for \<^verbatim>\<open>holiday\<close>, and 1.5 for any other type.
\<close>

definition spec_multiplier :: "string \<Rightarrow> real" where
  "spec_multiplier k =
     (if k = ''normal'' then 3 / 2
      else if k = ''night'' then 7 / 4
      else if k = ''sunday'' then 2
      else if k = ''holiday'' then 5 / 2
      else 3 / 2)"

text \<open>
  A second example: from the initial state, an open-ended session started when the
  clock reads 0 (id \<^verbatim>\<open>0\<close>), and then a session whose \<^verbatim>\<open>hours\<close> field is the string
  \<^verbatim>\<open>'2'\<close>, started when the clock reads 5 (id \<^verbatim>\<open>5\<close>).
\<close>

definition open_example :: state where
  "open_example = fst (start_session 0 0 (Some (Fin 20)) (Some ''normal'') None initial_state)"

definition string_example :: state where
  "string_example =
     fst (start_session 5 5 (Some (Fin 20)) (Some ''normal'') (Some (PStr ''2'')) open_example)"

section \<open>Evaluating the model\<close>

declare digits.simps [simp del]

lemma bitlen_numeral: "bitlen (numeral n) = bitlen (numeral n div 2) + 1"
  by (subst compute_bitlen) simp

lemma bitlen_one: "bitlen 1 = 1"
  by (subst compute_bitlen) simp

lemmas round64_eval =
  round64_def floorlog2_def pow2_def round_half_even_def Let_def bitlen_numeral bitlen_one

lemmas string_eval =
  string_to_number_def trim_def is_space_def unsigned_decimal_def is_digit_def
  exponent_part_def unsigned_digits_def digits_number_def digit_value_def

section \<open>Validation of the hours\<close>

lemma jsgt_not_jsle: "jsgt a b \<Longrightarrow> \<not> jsle a b"
  by (cases a; cases b) (auto simp: jsgt_def)

lemma jsgt_zero: "jsgt r (Fin 0) \<Longrightarrow> truthy r \<and> \<not> jsle r (Fin 0)"
  by (cases r) (auto simp: jsgt_def)

lemma js_plus_numbers: "js_plus (PNum a) (Some (PNum b)) = PNum (jsadd a b)"
  by (simp add: js_plus_def)

text \<open>
  With a number for the hours and numbers for the two totals, the function returns:
  the result is invalid, with one error, exactly when \<^verbatim>\<open>hours <= 0\<close>, and each limit
  that is exceeded adds its warning.
\<close>

lemma validate_number_hours:
  assumes "weekly (get_tracking m userId) = PNum w"
    and "yearly (get_tracking m userId) = PNum y"
  shows "validateOvertimeHours m (PNum hours) type userId =
     Inr \<lparr>isValid = (\<not> jsle hours (Fin 0)),
          errors = (if jsle hours (Fin 0) then [''Overtime hours must be greater than 0'']
                    else []),
          warnings =
            (if jsgt hours (Fin 4) then [DailyLimitWarning] else [])
            @ (if jsgt (jsadd w hours) (Fin 12)
               then [WeeklyLimitWarning w (PNum hours) (jsadd w hours)] else [])
            @ (if jsgt (jsadd y hours) (Fin 100)
               then [YearlyLimitWarning y (PNum hours) (jsadd y hours)] else [])
            @ (if jsgt hours (Fin 8) then [SustainabilityWarning] else [])\<rparr>"
  using assms
  by (simp add: validateOvertimeHours_def Let_def js_plus_numbers limit_warning_def
      MAX_HOURS_PER_DAY_def MAX_HOURS_PER_WEEK_def MAX_HOURS_PER_YEAR_def)

lemma validate_number_hours_positive:
  assumes "weekly (get_tracking m userId) = PNum w"
    and "yearly (get_tracking m userId) = PNum y"
    and "jsgt hours (Fin 0)"
  shows "\<exists>v. validateOvertimeHours m (PNum hours) type userId = Inr v
             \<and> isValid v \<and> errors v = []"
  using assms(3) by (simp add: validate_number_hours[OF assms(1,2)] jsgt_not_jsle)

lemma start_session_not_blocked:
  assumes "weekly (get_tracking (userOvertimeTracking st) ''default'') = PNum w"
    and "yearly (get_tracking (userOvertimeTracking st) ''default'') = PNum y"
    and "jsgt r (Fin 0)" and "t \<noteq> []" and "jsgt hours (Fin 0)"
  shows "\<not> isl (snd (start_session idNow startNow (Some r) (Some t) (Some (PNum hours)) st))"
  using assms(3-5) jsgt_zero[OF assms(3)] jsgt_zero[OF assms(5)]
  by (simp add: start_session_def Let_def validate_number_hours[OF assms(1,2)])

lemma calculate_not_blocked:
  assumes "weekly (get_tracking (userOvertimeTracking st) ''default'') = PNum w"
    and "yearly (get_tracking (userOvertimeTracking st) ''default'') = PNum y"
    and "jsgt r (Fin 0)" and "t \<noteq> []" and "jsgt hours (Fin 0)"
  shows "\<not> isl (calculate st (Some r) (Some t) (Some (PNum hours)))"
  using assms(3-5) jsgt_zero[OF assms(3)] jsgt_zero[OF assms(5)]
  by (simp add: calculate_def Let_def validate_number_hours[OF assms(1,2)])

lemma validate_13_hours:
  "validateOvertimeHours Map.empty (PNum (Fin 13)) ''normal'' ''default'' =
     Inr \<lparr>isValid = True, errors = [],
          warnings = [DailyLimitWarning, WeeklyLimitWarning (Fin 0) (PNum (Fin 13)) (Fin 13),
                      SustainabilityWarning]\<rparr>"
proof -
  have "get_tracking Map.empty ''default'' = \<lparr>weekly = PNum (Fin 0), yearly = PNum (Fin 0)\<rparr>"
    by (simp add: get_tracking_def)
  then show ?thesis
    by (simp add: validate_number_hours[where w = "Fin 0" and y = "Fin 0"] jsgt_def
        round64_eval)
qed

lemma number_of_13: "string_to_number ''13'' = Fin 13"
  by (simp add: string_eval round64_eval)

lemma number_of_013: "string_to_number ''013'' = Fin 13"
  by (simp add: string_eval round64_eval)

lemma plus_0_13: "js_plus (PNum (Fin 0)) (Some (PStr ''13'')) = PStr ''013''"
  by (simp add: js_plus_def number_to_string_def)

lemma validate_13_string:
  "validateOvertimeHours Map.empty (PStr ''13'') ''normal'' ''default'' = Inl TypeError"
  by (simp add: validateOvertimeHours_def Let_def get_tracking_def plus_0_13 number_of_13
      number_of_013 limit_warning_def jsgt_def MAX_HOURS_PER_DAY_def MAX_HOURS_PER_WEEK_def)


text \<open>
  C1 evaluated. The route handlers pass \<^verbatim>\<open>req.body.hours\<close> on as it arrives. For the
  string \<^verbatim>\<open>'13'\<close>, \<^verbatim>\<open>hours > 0\<close> holds, but with totals of 0 the new weekly total is the
  string \<^verbatim>\<open>'013'\<close>, which exceeds 12 as a number, and building the warning throws
  a \<^verbatim>\<open>TypeError\<close>: \<open>validateOvertimeHours\<close> returns no result, calculate and
  start-session answer 500, and no session is stored. For the number 13 the same
  request is valid, with the warnings of the limits it exceeds.
\<close>

theorem string_hours_over_limit_throw:
  "jsgt (prim_number (PStr ''13'')) (Fin 0)
   \<and> validateOvertimeHours Map.empty (PStr ''13'') ''normal'' ''default'' = Inl TypeError
   \<and> calculate initial_state (Some (Fin 20)) (Some ''normal'') (Some (PStr ''13''))
       = Inl (500, ''TypeError'')
   \<and> start_session 0 0 (Some (Fin 20)) (Some ''normal'') (Some (PStr ''13'')) initial_state
       = (initial_state, Inl (500, ''TypeError''))
   \<and> validateOvertimeHours Map.empty (PNum (Fin 13)) ''normal'' ''default'' =
       Inr \<lparr>isValid = True, errors = [],
            warnings = [DailyLimitWarning, WeeklyLimitWarning (Fin 0) (PNum (Fin 13)) (Fin 13),
                        SustainabilityWarning]\<rparr>"
proof -
  have i: "userOvertimeTracking initial_state = Map.empty"
    by (simp add: initial_state_def)
  show ?thesis
    by (simp add: number_of_13 jsgt_def validate_13_string validate_13_hours calculate_def
        start_session_def Let_def i uncaught_def)
qed

text \<open>
  The request of this evaluation has a rate and a type that pass the handler's own
  checks, so the answer is not one of its 400 responses; the state is left as it was.
\<close>

theorem string_hours_over_limit_throw_witness:
  "truthy (Fin 20) \<and> ''normal'' \<noteq> [] \<and> \<not> jsle (Fin 20) (Fin 0)
   \<and> snd (start_session 0 0 (Some (Fin 20)) (Some ''normal'') (Some (PStr ''13''))
        initial_state) = Inl (500, ''TypeError'')
   \<and> sessions (fst (start_session 0 0 (Some (Fin 20)) (Some ''normal'') (Some (PStr ''13''))
        initial_state)) = []"
  using string_hours_over_limit_throw by (simp add: initial_state_def)

section \<open>Frame of the status query and the listing\<close>

lemma map_update_frame:
  "map_of al k = Some s \<Longrightarrow> g v = g s \<Longrightarrow>
   map (\<lambda>(k, s). (k, g s)) (AList.update k v al) = map (\<lambda>(k, s). (k, g s)) al"
  by (induction al) (auto split: if_splits)

lemma status_update_frame:
  "startTime (status_update now s) = startTime s
   \<and> s_hourlyRate (status_update now s) = s_hourlyRate s
   \<and> overtimeType (status_update now s) = overtimeType s"
  by (simp add: status_update_def Let_def)

text \<open>
  C8. Neither the status query nor the listing of all sessions changes the
  \<^verbatim>\<open>startTime\<close>, \<^verbatim>\<open>hourlyRate\<close> or \<^verbatim>\<open>overtimeType\<close> of any stored session: after a
  status query the map holds the same keys in the same order, each with these three
  fields as before, and the listing leaves the whole state as it is.
\<close>

theorem status_and_listing_keep_start_rate_type:
  "map (\<lambda>(k, s). (k, startTime s, s_hourlyRate s, overtimeType s))
       (sessions (fst (session_status now sid st)))
   = map (\<lambda>(k, s). (k, startTime s, s_hourlyRate s, overtimeType s)) (sessions st)
   \<and> fst (get_sessions st) = st"
proof -
  have "map (\<lambda>(k, s). (k, startTime s, s_hourlyRate s, overtimeType s))
          (AList.update sid (status_update now s) (sessions st))
        = map (\<lambda>(k, s). (k, startTime s, s_hourlyRate s, overtimeType s)) (sessions st)"
    if "map_of (sessions st) sid = Some s" for s
    using that
    by (intro map_update_frame[where g = "\<lambda>s. (startTime s, s_hourlyRate s, overtimeType s)"])
       (simp_all add: status_update_frame)
  then show ?thesis
    by (simp add: session_status_def get_sessions_def Let_def split: option.splits)
qed

section \<open>Zero hours at the two entry points\<close>



lemma validate_one_hour:
  "validateOvertimeHours m (PNum (Fin 1)) t u = Inr v \<Longrightarrow> isValid v"
  by (auto simp: validateOvertimeHours_def Let_def split: sum.splits)






lemma start_session_no_hours:
  "truthy r \<Longrightarrow> \<not> jsle r (Fin 0) \<Longrightarrow> t \<noteq> [] \<Longrightarrow>
   start_session idNow startNow (Some r) (Some t) None st =
     (case validateOvertimeHours (userOvertimeTracking st) (PNum (Fin 1)) t ''default'' of
        Inl e \<Rightarrow> (st, Inl (uncaught e))
      | Inr v \<Rightarrow>
          (st\<lparr>sessions := AList.update (toString idNow)
                \<lparr>s_id = toString idNow, s_hourlyRate = r, overtimeType = t, totalHours = None,
                 s_calculation = calculateOvertimePayFromRate r t (Fin 1), startTime = startNow,
                 isActive = True, currentEarnings = Fin 0, s_warnings = warnings v,
                 isOpenEnded = True, endTime = None, duration = None, elapsedTime = None,
                 remainingTime = None\<rparr> (sessions st)\<rparr>,
           Inr \<lparr>sessionId = toString idNow,
                r_calculation = calculateOvertimePayFromRate r t (Fin 1),
                r_warnings = warnings v, r_isOpenEnded = True\<rparr>))"
  by (simp add: start_session_def Let_def validate_one_hour split: sum.splits)



section \<open>The scheduler and the status query\<close>

lemma jsle_not_jslt: "jsle a b \<Longrightarrow> \<not> jslt b a"
  by (cases a; cases b) auto

lemma tick_session_inactive: "\<not> isActive s \<Longrightarrow> tick_session now sid s = (s, [])"
  by (simp add: tick_session_def)

lemma status_update_inactive: "\<not> isActive s \<Longrightarrow> status_update now s = s"
  by (simp add: status_update_def)

lemma tick_session_completes:
  assumes "isActive s" "\<not> isOpenEnded s"
    and "\<not> jslt (seconds_between now (startTime s)) (jsmul (to_number (totalHours s)) (Fin 3600))"
  shows "tick_session now sid s =
           (completed now s,
            [SessionComplete sid (totalPay (s_calculation s)) (seconds_between now (startTime s))])"
  using assms by (simp add: tick_session_def completed_def Let_def)

lemma status_update_completes:
  assumes "isActive s" "\<not> isOpenEnded s"
    and "\<not> jslt (seconds_between now (startTime s)) (jsmul (to_number (totalHours s)) (Fin 3600))"
  shows "status_update now s =
           (completed now s)\<lparr>elapsedTime := Some (seconds_between now (startTime s)),
                              remainingTime := Some (Some (Fin 0))\<rparr>"
  using assms by (simp add: status_update_def completed_def Let_def)

lemma tick_session_room: "e \<in> set (snd (tick_session now k s)) \<Longrightarrow> event_room e = k"
  by (auto simp: tick_session_def Let_def split: if_splits)

lemma filter_room_tick_session:
  "filter (\<lambda>e. event_room e = sid) (snd (tick_session now k s))
   = (if k = sid then snd (tick_session now k s) else [])"
  by (auto simp: filter_empty_conv dest: tick_session_room intro: filter_True)

lemma tick_sessions: 
  "sessions (fst (tick clock st)) = map (\<lambda>(k, s). (k, fst (tick_session (clock k) k s))) (sessions st)"
  by (simp add: tick_def Let_def case_prod_unfold comp_def)

lemma tick_events:
  "snd (tick clock st) = concat (map (\<lambda>(k, s). snd (tick_session (clock k) k s)) (sessions st))"
  by (simp add: tick_def Let_def case_prod_unfold comp_def)

lemma tick_keys: "map fst (sessions (fst (tick clock st))) = map fst (sessions st)"
  by (simp add: tick_sessions case_prod_unfold comp_def)

lemma map_of_tick_aux:
  "map_of (map (\<lambda>(k, s). (k, f k s)) al) sid = map_option (f sid) (map_of al sid)"
  by (induction al) auto

lemma tick_lookup:
  "map_of (sessions (fst (tick clock st))) sid
   = map_option (\<lambda>s. fst (tick_session (clock sid) sid s)) (map_of (sessions st) sid)"
  by (simp add: tick_sessions map_of_tick_aux)

lemma room_events_aux:
  "distinct (map fst al) \<Longrightarrow>
   filter (\<lambda>e. event_room e = sid) (concat (map (\<lambda>(k, s). snd (tick_session (clock k) k s)) al))
   = (case map_of al sid of None \<Rightarrow> [] | Some s \<Rightarrow> snd (tick_session (clock sid) sid s))"
proof (induction al)
  case Nil
  then show ?case by simp
next
  case (Cons p al)
  obtain k s where p: "p = (k, s)" by (cases p)
  show ?case
  proof (cases "k = sid")
    case True
    with Cons.prems p have "map_of al sid = None"
      by (simp add: map_of_eq_None_iff)
    with Cons p True show ?thesis
      by (simp add: filter_room_tick_session)
  next
    case False
    with Cons p show ?thesis
      by (simp add: filter_room_tick_session)
  qed
qed

lemma tick_room_events:
  "distinct (map fst (sessions st)) \<Longrightarrow>
   filter (\<lambda>e. event_room e = sid) (snd (tick clock st))
   = (case map_of (sessions st) sid of None \<Rightarrow> []
      | Some s \<Rightarrow> snd (tick_session (clock sid) sid s))"
  by (simp add: tick_events room_events_aux)

lemma status_lookup:
  "map_of (sessions st) sid = Some s \<Longrightarrow>
   map_of (sessions (fst (session_status now sid st))) k
   = (if k = sid then Some (status_update now s) else map_of (sessions st) k)"
  by (simp add: session_status_def Let_def update_conv')

lemma status_keys:
  "map fst (sessions (fst (session_status now sid st))) = map fst (sessions st)"
  by (auto simp: session_status_def Let_def update_keys map_of_eq_None_iff
      split: option.splits)

lemma validate_isValid:
  "validateOvertimeHours m hours type userId = Inr v \<Longrightarrow>
   isValid v = (\<not> jsle (prim_number hours) (Fin 0))"
  by (auto simp: validateOvertimeHours_def Let_def split: sum.splits)

lemma start_session_hours:
  assumes "jsgt r (Fin 0)" "t \<noteq> []" "jsgt h (Fin 0)"
    and "validateOvertimeHours (userOvertimeTracking st) (PNum h) t ''default'' = Inr v"
  shows "start_session idNow startNow (Some r) (Some t) (Some (PNum h)) st =
     (st\<lparr>sessions := AList.update (toString idNow)
           \<lparr>s_id = toString idNow, s_hourlyRate = r, overtimeType = t,
            totalHours = Some (PNum h),
            s_calculation = calculateOvertimePayFromRate r t h, startTime = startNow,
            isActive = True, currentEarnings = Fin 0, s_warnings = warnings v,
            isOpenEnded = False, endTime = None, duration = None, elapsedTime = None,
            remainingTime = None\<rparr> (sessions st)\<rparr>,
      Inr \<lparr>sessionId = toString idNow, r_calculation = calculateOvertimePayFromRate r t h,
           r_warnings = warnings v, r_isOpenEnded = False\<rparr>)"
  using jsgt_zero[OF assms(1)] jsgt_zero[OF assms(3)] assms(2) validate_isValid[OF assms(4)]
  by (simp add: start_session_def Let_def assms(4))

lemma toString_0: "toString 0 = ''0''"
  by (simp add: toString_def digits.simps digit_char_def)

lemma calc_example:
  "calculateOvertimePayFromRate (Fin 20) ''normal'' (Fin 1)
   = \<lparr>hourlyRate = Fin 20, multiplier = Num (Fin (3 / 2)), totalPay = Fin 30,
      ratePerSecond = Fin (4803839602528529 / 576460752303423488)\<rparr>"
  by (simp add: calculateOvertimePayFromRate_def OVERTIME_MULTIPLIERS_def round64_eval)

lemma validate_example:
  "validateOvertimeHours Map.empty (PNum (Fin 1)) ''normal'' ''default''
   = Inr \<lparr>isValid = True, errors = [], warnings = []\<rparr>"
proof -
  have "get_tracking Map.empty ''default'' = \<lparr>weekly = PNum (Fin 0), yearly = PNum (Fin 0)\<rparr>"
    by (simp add: get_tracking_def)
  then show ?thesis
    by (simp add: validate_number_hours[where w = "Fin 0" and y = "Fin 0"] jsgt_def
        round64_eval)
qed

lemma fixed_example_start:
  "start_session 0 0 (Some (Fin 20)) (Some ''normal'') (Some (PNum (Fin 1))) initial_state
   = (\<lparr>sessions = [(''0'', example_session)], userOvertimeTracking = Map.empty\<rparr>,
      Inr \<lparr>sessionId = ''0'',
           r_calculation = calculateOvertimePayFromRate (Fin 20) ''normal'' (Fin 1),
           r_warnings = [], r_isOpenEnded = False\<rparr>)"
proof -
  have v: "validateOvertimeHours (userOvertimeTracking initial_state) (PNum (Fin 1)) ''normal''
             ''default'' = Inr \<lparr>isValid = True, errors = [], warnings = []\<rparr>"
    by (simp add: initial_state_def validate_example)
  have "start_session 0 0 (Some (Fin 20)) (Some ''normal'') (Some (PNum (Fin 1))) initial_state
        = (initial_state\<lparr>sessions := AList.update (toString 0)
             \<lparr>s_id = toString 0, s_hourlyRate = Fin 20, overtimeType = ''normal'',
              totalHours = Some (PNum (Fin 1)),
              s_calculation = calculateOvertimePayFromRate (Fin 20) ''normal'' (Fin 1),
              startTime = 0, isActive = True, currentEarnings = Fin 0,
              s_warnings = warnings \<lparr>isValid = True, errors = [], warnings = []\<rparr>,
              isOpenEnded = False, endTime = None, duration = None, elapsedTime = None,
              remainingTime = None\<rparr> (sessions initial_state)\<rparr>,
           Inr \<lparr>sessionId = toString 0,
                r_calculation = calculateOvertimePayFromRate (Fin 20) ''normal'' (Fin 1),
                r_warnings = warnings \<lparr>isValid = True, errors = [], warnings = []\<rparr>,
                r_isOpenEnded = False\<rparr>)"
    by (rule start_session_hours[OF _ _ _ v]) (simp_all add: jsgt_def)
  then show ?thesis
    by (simp add: initial_state_def toString_0 calc_example example_session_def)
qed

lemma fixed_example_sessions: "sessions fixed_example = [(''0'', example_session)]"
  by (simp add: fixed_example_def fixed_example_start)

lemma fixed_example_tracking: "userOvertimeTracking fixed_example = Map.empty"
  by (simp add: fixed_example_def fixed_example_start)

lemma seconds_3600: "seconds_between 3600000 0 = Fin 3600"
  by (simp add: seconds_between_def date_number_def jssub_def round64_eval)

lemma seconds_1: "seconds_between 1000 0 = Fin 1"
  by (simp add: seconds_between_def date_number_def jssub_def round64_eval)

lemma round64_3600: "round64 3600 = Fin 3600"
  by (simp add: round64_eval)

lemma completed_inactive: "\<not> isActive (completed now s)"
  by (simp add: completed_def)

lemma example_lookup: "map_of (sessions fixed_example) ''0'' = Some example_session"
  unfolding fixed_example_sessions by simp

lemma example_distinct: "distinct (map fst (sessions fixed_example))"
  unfolding fixed_example_sessions by simp

lemma example_fields:
  "isActive example_session" "\<not> isOpenEnded example_session"
  "totalHours example_session = Some (PNum (Fin 1))" "startTime example_session = 0"
  "totalPay (s_calculation example_session) = Fin 30"
  by (simp_all add: example_session_def)


text \<open>
  C2, as amended. For an active fixed-duration session with \<open>totalHours = H\<close>, stored
  under a key of a map with distinct keys: once the elapsed seconds reach
  \<^verbatim>\<open>H * 3600\<close> (with \<open>H\<close> as the number it is in this product), a scheduler tick and a status query both store the completed session
  (\<open>isActive = False\<close>, \<open>endTime = now\<close>, \<open>duration\<close> the elapsed seconds, and
  \<open>currentEarnings\<close> exactly the precomputed \<open>totalPay\<close>). The tick sends exactly one
  \<open>SessionComplete\<close> event to the room of the session. The status query sends nothing,
  and no later tick sends anything to that room either; after a completion by the tick,
  later ticks and status queries leave the session as it is and send nothing.
\<close>

theorem fixed_session_completes_once:
  assumes "distinct (map fst (sessions st))"
    and "map_of (sessions st) sid = Some s"
    and "isActive s" and "\<not> isOpenEnded s" and "totalHours s = Some H"
    and "jsle (jsmul (prim_number H) (Fin 3600)) (seconds_between now (startTime s))"
    and "clock sid = now"
  shows "map_of (sessions (fst (tick clock st))) sid = Some (completed now s)
    \<and> filter (\<lambda>e. event_room e = sid) (snd (tick clock st))
         = [SessionComplete sid (totalPay (s_calculation s)) (seconds_between now (startTime s))]
    \<and> map_of (sessions (fst (session_status now sid st))) sid
         = Some ((completed now s)\<lparr>elapsedTime := Some (seconds_between now (startTime s)),
                                    remainingTime := Some (Some (Fin 0))\<rparr>)
    \<and> filter (\<lambda>e. event_room e = sid) (snd (tick clock' (fst (session_status now sid st)))) = []
    \<and> filter (\<lambda>e. event_room e = sid) (snd (tick clock' (fst (tick clock st)))) = []
    \<and> map_of (sessions (fst (tick clock' (fst (tick clock st))))) sid = Some (completed now s)
    \<and> map_of (sessions (fst (session_status now' sid (fst (tick clock st))))) sid
         = Some (completed now s)"
proof -
  let ?el = "seconds_between now (startTime s)"
  let ?c = "completed now s"
  let ?q = "?c\<lparr>elapsedTime := Some ?el, remainingTime := Some (Some (Fin 0))\<rparr>"
  have over: "\<not> jslt ?el (jsmul (to_number (totalHours s)) (Fin 3600))"
    using assms(5,6) by (simp add: jsle_not_jslt)
  have t: "tick_session now sid s = (?c, [SessionComplete sid (totalPay (s_calculation s)) ?el])"
    using assms(3,4) over by (rule tick_session_completes)
  have q: "status_update now s = ?q"
    using assms(3,4) over by (rule status_update_completes)
  have 1: "map_of (sessions (fst (tick clock st))) sid = Some ?c"
    using assms(2,7) t by (simp add: tick_lookup)
  have 2: "filter (\<lambda>e. event_room e = sid) (snd (tick clock st))
        = [SessionComplete sid (totalPay (s_calculation s)) ?el]"
    using assms(1,2,7) t by (simp add: tick_room_events)
  have 3: "map_of (sessions (fst (session_status now sid st))) sid = Some ?q"
    using assms(2) q by (simp add: status_lookup)
  have dq: "distinct (map fst (sessions (fst (session_status now sid st))))"
    using assms(1) by (simp add: status_keys)
  have dt: "distinct (map fst (sessions (fst (tick clock st))))"
    using assms(1) by (simp add: tick_keys)
  have iq: "\<not> isActive ?q"
    by (simp add: completed_def)
  have 4: "filter (\<lambda>e. event_room e = sid) (snd (tick clock' (fst (session_status now sid st)))) = []"
    using iq by (simp add: tick_room_events[OF dq] 3 tick_session_inactive)
  have 5: "filter (\<lambda>e. event_room e = sid) (snd (tick clock' (fst (tick clock st)))) = []"
    by (simp add: tick_room_events[OF dt] 1 tick_session_inactive completed_inactive)
  have 6: "map_of (sessions (fst (tick clock' (fst (tick clock st))))) sid = Some ?c"
    by (simp add: tick_lookup[of clock'] 1 tick_session_inactive completed_inactive)
  have 7: "map_of (sessions (fst (session_status now' sid (fst (tick clock st))))) sid = Some ?c"
    by (simp add: status_lookup[OF 1] status_update_inactive completed_inactive)
  from 1 2 3 4 5 6 7 show ?thesis
    by blast
qed


text \<open>The example session, one hour after its start: one completion event, earnings 30.\<close>

theorem fixed_session_completes_once_witness:
  "snd (tick (clock_at 3600000) fixed_example) = [SessionComplete ''0'' (Fin 30) (Fin 3600)]
   \<and> map (isActive \<circ> snd) (sessions (fst (tick (clock_at 3600000) fixed_example))) = [False]
   \<and> map (currentEarnings \<circ> snd) (sessions (fst (tick (clock_at 3600000) fixed_example)))
       = [Fin 30]"
proof -
  have le: "jsle (jsmul (prim_number (PNum (Fin 1))) (Fin 3600))
              (seconds_between 3600000 (startTime example_session))"
    by (simp add: example_fields seconds_3600 round64_3600)
  have ck: "clock_at 3600000 ''0'' = 3600000"
    by (simp add: clock_at_def)
  note w = fixed_session_completes_once[where clock = "clock_at 3600000" and sid = "''0''",
      OF example_distinct example_lookup example_fields(1,2,3) le ck]
  have ev: "snd (tick (clock_at 3600000) fixed_example)
            = filter (\<lambda>e. event_room e = ''0'') (snd (tick (clock_at 3600000) fixed_example))"
    unfolding tick_events fixed_example_sessions
    by (simp add: filter_room_tick_session)
  have ss: "sessions (fst (tick (clock_at 3600000) fixed_example))
            = [(''0'', completed 3600000 example_session)]"
    using w unfolding tick_sessions fixed_example_sessions
    by simp
  show ?thesis
    using w ev unfolding ss
    by (simp add: example_fields seconds_3600 completed_def)
qed


text \<open>
  C2 as stated fails where a status query performs the completion: the session of the
  example is completed by a status query after one hour, with earnings 30, and the next
  tick sends no event at all, so no completion event is ever sent.
\<close>

theorem status_query_completion_emits_nothing:
  "map (isActive \<circ> snd) (sessions (fst (session_status 3600000 ''0'' fixed_example))) = [False]
   \<and> map (currentEarnings \<circ> snd) (sessions (fst (session_status 3600000 ''0'' fixed_example)))
       = [Fin 30]
   \<and> snd (tick (clock_at 3600001) (fst (session_status 3600000 ''0'' fixed_example))) = []"
proof -
  have q: "status_update 3600000 example_session
           = (completed 3600000 example_session)\<lparr>elapsedTime := Some (Fin 3600),
                remainingTime := Some (Some (Fin 0))\<rparr>"
    by (simp add: status_update_def completed_def example_fields seconds_3600
        round64_3600 Let_def)
  have ss: "sessions (fst (session_status 3600000 ''0'' fixed_example))
            = [(''0'', status_update 3600000 example_session)]"
    by (simp add: session_status_def example_lookup Let_def fixed_example_sessions)
  show ?thesis
    unfolding tick_events ss q
    by (simp add: completed_def example_fields tick_session_inactive)
qed

section \<open>The status query against the tick\<close>

lemma status_versus_tick_session:
  "status_update now s
   = (fst (tick_session now sid s))\<lparr>elapsedTime := elapsedTime (status_update now s),
                                     remainingTime := remainingTime (status_update now s)\<rparr>"
  by (simp add: status_update_def tick_session_def Let_def)

lemma tick_session_keeps_elapsed:
  "elapsedTime (fst (tick_session now sid s)) = elapsedTime s
   \<and> remainingTime (fst (tick_session now sid s)) = remainingTime s"
  by (simp add: tick_session_def Let_def)

lemma status_update_sets_elapsed:
  "isActive s \<Longrightarrow>
   elapsedTime (status_update now s) = Some (seconds_between now (startTime s))
   \<and> remainingTime (status_update now s) \<noteq> None"
  by (simp add: status_update_def Let_def)

lemma tick_session_one_event: "isActive s \<Longrightarrow> length (snd (tick_session now sid s)) = 1"
  by (simp add: tick_session_def Let_def)

lemma example_status_sessions:
  "sessions (fst (session_status now ''0'' fixed_example))
   = [(''0'', status_update now example_session)]"
  by (simp add: session_status_def example_lookup Let_def fixed_example_sessions)

lemma example_tick_sessions:
  "sessions (fst (tick (clock_at now) fixed_example))
   = [(''0'', fst (tick_session now ''0'' example_session))]"
  unfolding tick_sessions fixed_example_sessions by (simp add: clock_at_def)


text \<open>
  C4, as amended. For a stored session and a query time, the status query and one
  scheduler tick at that time store sessions that agree on \<open>isActive\<close>, \<open>endTime\<close>,
  \<open>duration\<close> and \<open>currentEarnings\<close>, and on every other field except \<open>elapsedTime\<close>
  and \<open>remainingTime\<close>: the tick leaves these two as they were, and on an active session
  the status query sets both. On an active session the tick sends one event; the status
  query sends none.
\<close>

theorem status_query_versus_tick:
  assumes "map_of (sessions st) sid = Some s" and "clock sid = now"
  shows "map_of (sessions (fst (session_status now sid st))) sid = Some (status_update now s)
     \<and> map_of (sessions (fst (tick clock st))) sid = Some (fst (tick_session now sid s))
     \<and> isActive (status_update now s) = isActive (fst (tick_session now sid s))
     \<and> endTime (status_update now s) = endTime (fst (tick_session now sid s))
     \<and> duration (status_update now s) = duration (fst (tick_session now sid s))
     \<and> currentEarnings (status_update now s) = currentEarnings (fst (tick_session now sid s))
     \<and> status_update now s
         = (fst (tick_session now sid s))\<lparr>elapsedTime := elapsedTime (status_update now s),
                                           remainingTime := remainingTime (status_update now s)\<rparr>
     \<and> elapsedTime (fst (tick_session now sid s)) = elapsedTime s
     \<and> remainingTime (fst (tick_session now sid s)) = remainingTime s
     \<and> (isActive s \<longrightarrow>
          elapsedTime (status_update now s) = Some (seconds_between now (startTime s))
          \<and> remainingTime (status_update now s) \<noteq> None
          \<and> length (snd (tick_session now sid s)) = 1)"
proof -
  let ?a = "status_update now s"
  let ?b = "fst (tick_session now sid s)"
  have a: "map_of (sessions (fst (session_status now sid st))) sid = Some ?a"
    using assms(1) by (simp add: status_lookup)
  have b: "map_of (sessions (fst (tick clock st))) sid = Some ?b"
    using assms by (simp add: tick_lookup)
  have e: "?a = ?b\<lparr>elapsedTime := elapsedTime ?a, remainingTime := remainingTime ?a\<rparr>"
    by (rule status_versus_tick_session)
  have f: "isActive ?a = isActive ?b \<and> endTime ?a = endTime ?b \<and> duration ?a = duration ?b
           \<and> currentEarnings ?a = currentEarnings ?b"
    by (subst (1 2 3 4) e) simp
  show ?thesis
    using a b e f tick_session_keeps_elapsed[of now sid s] status_update_sets_elapsed[of s now]
      tick_session_one_event[of s now sid]
    by blast
qed


text \<open>The example session, one second after its start.\<close>

theorem status_query_versus_tick_witness:
  "map (isActive \<circ> snd) (sessions (fst (session_status 1000 ''0'' fixed_example)))
     = map (isActive \<circ> snd) (sessions (fst (tick (clock_at 1000) fixed_example)))
   \<and> map (currentEarnings \<circ> snd) (sessions (fst (session_status 1000 ''0'' fixed_example)))
     = map (currentEarnings \<circ> snd) (sessions (fst (tick (clock_at 1000) fixed_example)))
   \<and> map (elapsedTime \<circ> snd) (sessions (fst (session_status 1000 ''0'' fixed_example)))
     = [Some (Fin 1)]"
proof -
  have ck: "clock_at 1000 ''0'' = 1000"
    by (simp add: clock_at_def)
  note w = status_query_versus_tick[where clock = "clock_at 1000" and sid = "''0''",
      OF example_lookup ck]
  show ?thesis
    using w unfolding example_status_sessions example_tick_sessions
    by (simp add: example_fields seconds_1)
qed


text \<open>
  C4 as stated fails on \<open>elapsedTime\<close> and \<open>remainingTime\<close>: one second after the start
  of the example session a status query stores 1 and 3599, and a tick at the same time
  leaves both fields unset.
\<close>

theorem status_query_stores_what_tick_does_not:
  "map (elapsedTime \<circ> snd) (sessions (fst (session_status 1000 ''0'' fixed_example)))
     = [Some (Fin 1)]
   \<and> map (elapsedTime \<circ> snd) (sessions (fst (tick (clock_at 1000) fixed_example))) = [None]
   \<and> map (remainingTime \<circ> snd) (sessions (fst (session_status 1000 ''0'' fixed_example)))
     = [Some (Some (Fin 3599))]
   \<and> map (remainingTime \<circ> snd) (sessions (fst (tick (clock_at 1000) fixed_example))) = [None]"
  unfolding example_status_sessions example_tick_sessions
  by (simp add: status_update_def tick_session_def Let_def example_fields seconds_1
      round64_3600 jssub_def)
     (simp add: example_session_def round64_eval)

section \<open>The tracking totals\<close>

lemma is_double_0: "is_double 0"
  by (simp add: is_double_def round64_def)

lemma jsadd_zero: "is_number x \<Longrightarrow> jsadd x (Fin 0) = x"
  by (cases x) (simp_all add: is_double_def)

lemma get_tracking_update:
  "get_tracking (updateUserOvertimeTracking u h m) u'
   = (if u' = u then \<lparr>weekly = js_plus (weekly (get_tracking m u)) h,
                      yearly = js_plus (yearly (get_tracking m u)) h\<rparr>
      else get_tracking m u')"
  by (simp add: updateUserOvertimeTracking_def get_tracking_def Let_def)

lemma stop_session_tracking:
  "map_of (sessions st) sid = Some s \<Longrightarrow>
   userOvertimeTracking (fst (stop_session now sid st))
   = updateUserOvertimeTracking ''default'' (totalHours s) (userOvertimeTracking st)"
  by (simp add: stop_session_def Let_def)

lemma start_session_tracking:
  "userOvertimeTracking (fst (start_session idNow startNow rate type hours st))
   = userOvertimeTracking st"
  by (simp add: start_session_def Let_def split: option.splits sum.splits)

lemma tick_tracking: "userOvertimeTracking (fst (tick clock st)) = userOvertimeTracking st"
  by (simp add: tick_def Let_def)

lemma session_status_tracking:
  "userOvertimeTracking (fst (session_status now sid st)) = userOvertimeTracking st"
  by (simp add: session_status_def Let_def split: option.splits)

lemma get_sessions_tracking: "userOvertimeTracking (fst (get_sessions st)) = userOvertimeTracking st"
  by (simp add: get_sessions_def)

lemma overtime_tracking_tracking:
  "userOvertimeTracking (fst (overtime_tracking st)) = userOvertimeTracking st"
  by (simp add: overtime_tracking_def)

lemma stop_session_missing:
  "map_of (sessions st) sid = None \<Longrightarrow> fst (stop_session now sid st) = st"
  by (simp add: stop_session_def)

lemma stop_session_adds_hours:
  "map_of (sessions st) sid = Some s \<Longrightarrow>
   get_tracking (userOvertimeTracking (fst (stop_session now sid st))) u
   = (if u = ''default''
      then \<lparr>weekly = js_plus (weekly (get_tracking (userOvertimeTracking st) ''default''))
                       (totalHours s),
            yearly = js_plus (yearly (get_tracking (userOvertimeTracking st) ''default''))
                       (totalHours s)\<rparr>
      else get_tracking (userOvertimeTracking st) u)"
  by (simp add: stop_session_tracking get_tracking_update)

lemma stop_session_lookup:
  "map_of (sessions st) sid = Some s \<Longrightarrow>
   map_of (sessions (fst (stop_session now sid st))) sid
   = Some (s\<lparr>isActive := False, endTime := Some now,
              duration := Some (seconds_between now (startTime s))\<rparr>)"
  by (simp add: stop_session_def Let_def update_conv')

lemma round64_1: "round64 1 = Fin 1"
  by (simp add: round64_eval)

lemma round64_2: "round64 2 = Fin 2"
  by (simp add: round64_eval)


text \<open>
  C3 evaluated. The example session has \<open>totalHours = 1\<close> and the totals start at 0. A
  first stop makes them 1, and a second stop of the same session makes them 2: the
  handler adds the hours at every call, without looking at \<open>isActive\<close>.
\<close>

theorem second_stop_counts_hours_again:
  "map (totalHours \<circ> snd) (sessions fixed_example) = [Some (PNum (Fin 1))]
   \<and> get_tracking (userOvertimeTracking fixed_example) ''default''
       = \<lparr>weekly = PNum (Fin 0), yearly = PNum (Fin 0)\<rparr>
   \<and> get_tracking (userOvertimeTracking (fst (stop_session 1000 ''0'' fixed_example))) ''default''
       = \<lparr>weekly = PNum (Fin 1), yearly = PNum (Fin 1)\<rparr>
   \<and> get_tracking (userOvertimeTracking
         (fst (stop_session 2000 ''0'' (fst (stop_session 1000 ''0'' fixed_example))))) ''default''
       = \<lparr>weekly = PNum (Fin 2), yearly = PNum (Fin 2)\<rparr>"
proof -
  have t0: "get_tracking (userOvertimeTracking fixed_example) ''default''
            = \<lparr>weekly = PNum (Fin 0), yearly = PNum (Fin 0)\<rparr>"
    by (simp add: fixed_example_tracking get_tracking_def)
  have l1: "map_of (sessions (fst (stop_session 1000 ''0'' fixed_example))) ''0''
            = Some (example_session\<lparr>isActive := False, endTime := Some 1000,
                 duration := Some (seconds_between 1000 (startTime example_session))\<rparr>)"
    by (rule stop_session_lookup[OF example_lookup])
  have t1: "get_tracking (userOvertimeTracking (fst (stop_session 1000 ''0'' fixed_example)))
              ''default'' = \<lparr>weekly = PNum (Fin 1), yearly = PNum (Fin 1)\<rparr>"
    by (simp add: stop_session_adds_hours[OF example_lookup] t0 example_fields js_plus_numbers
        round64_1)
  have t2: "get_tracking (userOvertimeTracking
              (fst (stop_session 2000 ''0'' (fst (stop_session 1000 ''0'' fixed_example)))))
              ''default'' = \<lparr>weekly = PNum (Fin 2), yearly = PNum (Fin 2)\<rparr>"
    by (simp add: stop_session_adds_hours[OF l1] t1 example_fields js_plus_numbers round64_2)
  show ?thesis
    using t0 t1 t2 by (simp add: fixed_example_sessions example_fields)
qed

section \<open>Session ids\<close>

lemma digit_value_digit_char: "d < 10 \<Longrightarrow> digit_value (digit_char d) = d"
proof -
  assume "d < 10"
  then have "d \<in> {0, 1, 2, 3, 4, 5, 6, 7, 8, 9}" by auto
  then show ?thesis
    by (auto simp: digit_value_def digit_char_def)
qed

lemma digit_char_not_minus: "d < 10 \<Longrightarrow> digit_char d \<noteq> CHR ''-''"
proof -
  assume "d < 10"
  then have "d \<in> {0, 1, 2, 3, 4, 5, 6, 7, 8, 9}" by auto
  then show ?thesis
    by (auto simp: digit_char_def)
qed

lemma digits_number_snoc:
  "digits_number (ds @ [c]) = 10 * digits_number ds + digit_value c"
  by (simp add: digits_number_def)

lemma digits_number_digits: "digits_number (digits n) = n"
proof (induction n rule: digits.induct)
  case (1 n)
  show ?case
  proof (cases "n < 10")
    case True
    then show ?thesis
      by (subst digits.simps) (simp add: digits_number_def digit_value_digit_char)
  next
    case False
    with "1" have "digits_number (digits (n div 10)) = n div 10" by simp
    with False show ?thesis
      by (subst digits.simps) (simp add: digits_number_snoc digit_value_digit_char)
  qed
qed

lemma digits_head: "\<exists>c ds. digits n = c # ds \<and> c \<noteq> CHR ''-''"
proof (induction n rule: digits.induct)
  case (1 n)
  show ?case
  proof (cases "n < 10")
    case True
    then show ?thesis
      by (subst digits.simps) (simp add: digit_char_not_minus)
  next
    case False
    with "1" obtain c ds where "digits (n div 10) = c # ds" "c \<noteq> CHR ''-''" by blast
    with False show ?thesis
      by (subst digits.simps) simp
  qed
qed

lemma id_number_toString: "id_number (toString t) = t"
proof (cases "t < 0")
  case True
  then show ?thesis
    by (simp add: toString_def id_number_def digits_number_digits)
next
  case False
  obtain c ds where d: "digits (nat t) = c # ds" "c \<noteq> CHR ''-''"
    using digits_head by blast
  have "digits_number (c # ds) = nat t"
    using digits_number_digits[of "nat t"] d by simp
  with False d show ?thesis
    by (simp add: toString_def id_number_def)
qed

lemma toString_inj: "toString a = toString b \<Longrightarrow> a = b"
  by (metis id_number_toString)

lemma list_all_update:
  "list_all P al \<Longrightarrow> P (k, v) \<Longrightarrow> list_all P (AList.update k v al)"
  by (induction al) auto

lemma ids_consistent_update:
  "ids_consistent st \<Longrightarrow> s_id s = k \<Longrightarrow>
   ids_consistent (st\<lparr>sessions := AList.update k s (sessions st)\<rparr>)"
  by (simp add: ids_consistent_def distinct_update list_all_update)

lemma ids_consistent_tracking [simp]:
  "ids_consistent (st\<lparr>userOvertimeTracking := m\<rparr>) = ids_consistent st"
  by (simp add: ids_consistent_def)

lemma ids_consistent_lookup:
  "ids_consistent st \<Longrightarrow> map_of (sessions st) k = Some s \<Longrightarrow> s_id s = k"
  by (auto simp: ids_consistent_def list_all_iff dest: map_of_SomeD)

lemma start_session_cases:
  "start_session idNow startNow rate type hours st = (st', res) \<Longrightarrow>
   (st' = st \<and> (\<exists>e. res = Inl e))
   \<or> (\<exists>s c. st' = st\<lparr>sessions := AList.update (toString idNow) s (sessions st)\<rparr>
         \<and> res = Inr c \<and> sessionId c = toString idNow
         \<and> s_id s = toString idNow \<and> startTime s = startNow \<and> isActive s)"
  by (auto simp: start_session_def Let_def split: option.splits if_splits sum.splits)

lemma ids_consistent_start:
  assumes "ids_consistent st"
  shows "ids_consistent (fst (start_session idNow startNow rate type hours st))"
proof -
  obtain st' res where r: "start_session idNow startNow rate type hours st = (st', res)"
    by (cases "start_session idNow startNow rate type hours st")
  from start_session_cases[OF r] assms show ?thesis
    unfolding r by (auto simp: ids_consistent_update)
qed

lemma ids_consistent_stop:
  assumes "ids_consistent st"
  shows "ids_consistent (fst (stop_session now sid st))"
proof (cases "map_of (sessions st) sid")
  case None
  with assms show ?thesis by (simp add: stop_session_def)
next
  case (Some s)
  with assms have "s_id s = sid" by (rule ids_consistent_lookup)
  with assms Some show ?thesis
    using ids_consistent_update[of st "s\<lparr>isActive := False, endTime := Some now,
        duration := Some (seconds_between now (startTime s))\<rparr>" sid]
    by (simp add: stop_session_def Let_def)
qed

lemma status_update_id: "s_id (status_update now s) = s_id s"
  by (simp add: status_update_def Let_def)

lemma tick_session_id: "s_id (fst (tick_session now k s)) = s_id s"
  by (simp add: tick_session_def Let_def)

lemma ids_consistent_status:
  assumes "ids_consistent st"
  shows "ids_consistent (fst (session_status now sid st))"
proof (cases "map_of (sessions st) sid")
  case None
  with assms show ?thesis by (simp add: session_status_def)
next
  case (Some s)
  with assms have "s_id s = sid" by (rule ids_consistent_lookup)
  with assms Some show ?thesis
    using ids_consistent_update[of st "status_update now s" sid]
    by (simp add: session_status_def Let_def status_update_id)
qed

lemma ids_consistent_tick:
  assumes "ids_consistent st"
  shows "ids_consistent (fst (tick clock st))"
proof -
  have "distinct (map fst (sessions (fst (tick clock st))))"
    using assms by (simp add: ids_consistent_def tick_keys)
  moreover have "list_all (\<lambda>(k, s). s_id s = k) (sessions (fst (tick clock st)))"
    using assms by (auto simp: ids_consistent_def tick_sessions list_all_iff tick_session_id)
  ultimately show ?thesis
    by (simp add: ids_consistent_def)
qed

lemma ids_consistent_initial: "ids_consistent initial_state"
  by (simp add: ids_consistent_def initial_state_def)

lemma reachable_ids_consistent: "reachable st \<Longrightarrow> ids_consistent st"
  by (induction rule: reachable.induct)
     (simp_all add: ids_consistent_initial ids_consistent_start ids_consistent_stop
        ids_consistent_status ids_consistent_tick)

lemma ids_consistent_distinct_ids:
  "ids_consistent st \<Longrightarrow> distinct (map (s_id \<circ> snd) (sessions st))"
proof -
  assume a: "ids_consistent st"
  then have e: "map (s_id \<circ> snd) (sessions st) = map fst (sessions st)"
    by (auto simp: ids_consistent_def list_all_iff)
  have d: "distinct (map fst (sessions st))"
    using a by (simp add: ids_consistent_def)
  show ?thesis
    unfolding e by (rule d)
qed

lemma update_keys_fresh:
  "k \<notin> set (map fst al) \<Longrightarrow> map fst (AList.update k v al) = map fst al @ [k]"
  by (simp add: update_keys)

lemma toString_5: "toString 5 = ''5''"
  by (simp add: toString_def digits.simps digit_char_def)

lemma fixed_example_reachable: "reachable fixed_example"
  unfolding fixed_example_def by (intro reachable.start reachable.init)

lemma id_number_0: "id_number ''0'' = 0"
  using id_number_toString[of 0] by (simp add: toString_0)


text \<open>
  C7, as amended. In every state of the server the ids of the stored sessions are
  pairwise distinct. A successful start-session call gives the new session the id
  \<open>toString idNow\<close>, the decimal string of the clock reading, and stores it under that
  id. When the reading is greater than the number of every stored id, the id is fresh,
  it is greater than every stored id, and the session is added after the stored ones.
\<close>

theorem start_session_assigns_clock_id:
  assumes "reachable st"
    and "snd (start_session idNow startNow rate type hours st) = Inr r"
  shows "distinct (map (s_id \<circ> snd) (sessions (fst (start_session idNow startNow rate type hours st))))
     \<and> sessionId r = toString idNow \<and> id_number (sessionId r) = idNow
     \<and> (\<exists>s. map_of (sessions (fst (start_session idNow startNow rate type hours st))) (sessionId r)
              = Some s \<and> s_id s = sessionId r \<and> startTime s = startNow \<and> isActive s)
     \<and> ((\<forall>k \<in> set (map fst (sessions st)). id_number k < idNow) \<longrightarrow>
          sessionId r \<notin> set (map fst (sessions st))
          \<and> (\<forall>k \<in> set (map fst (sessions st)). id_number k < id_number (sessionId r))
          \<and> map fst (sessions (fst (start_session idNow startNow rate type hours st)))
             = map fst (sessions st) @ [sessionId r])"
proof -
  let ?st' = "fst (start_session idNow startNow rate type hours st)"
  have "reachable ?st'"
    using assms(1) by (rule reachable.start)
  then have d: "distinct (map (s_id \<circ> snd) (sessions ?st'))"
    by (intro ids_consistent_distinct_ids reachable_ids_consistent)
  have "start_session idNow startNow rate type hours st = (?st', Inr r)"
    using assms(2) by (simp add: prod_eq_iff)
  from start_session_cases[OF this]
  obtain s where s: "?st' = st\<lparr>sessions := AList.update (toString idNow) s (sessions st)\<rparr>"
      "sessionId r = toString idNow" "s_id s = toString idNow" "startTime s = startNow" "isActive s"
    by auto
  have l: "map_of (sessions ?st') (sessionId r) = Some s"
    by (subst s(1)) (simp add: s(2) update_conv')
  have n: "id_number (sessionId r) = idNow"
    by (simp add: s(2) id_number_toString)
  have f: "sessionId r \<notin> set (map fst (sessions st))"
    if "\<forall>k \<in> set (map fst (sessions st)). id_number k < idNow"
    using that n by auto
  have k: "map fst (sessions ?st') = map fst (sessions st) @ [sessionId r]"
    if "\<forall>k \<in> set (map fst (sessions st)). id_number k < idNow"
    using f[OF that] by (subst s(1)) (simp add: s(2) update_keys_fresh)
  show ?thesis
    using d s(2,3,4,5) l n f k by auto
qed

text \<open>A second session, started five milliseconds after the example session.\<close>

theorem start_session_assigns_clock_id_witness:
  "map fst (sessions (fst (start_session 5 6 (Some (Fin 20)) (Some ''normal'') None fixed_example)))
     = [''0'', ''5'']
   \<and> distinct (map (s_id \<circ> snd)
        (sessions (fst (start_session 5 6 (Some (Fin 20)) (Some ''normal'') None fixed_example))))
   \<and> id_number ''0'' < id_number ''5''"
proof -
  let ?r = "\<lparr>sessionId = toString 5,
             r_calculation = calculateOvertimePayFromRate (Fin 20) ''normal'' (Fin 1),
             r_warnings = [], r_isOpenEnded = True\<rparr>"
  have r: "snd (start_session 5 6 (Some (Fin 20)) (Some ''normal'') None fixed_example) = Inr ?r"
    by (simp add: start_session_no_hours fixed_example_tracking validate_example)
  have k: "\<forall>k \<in> set (map fst (sessions fixed_example)). id_number k < 5"
    unfolding fixed_example_sessions by (simp add: id_number_0)
  have i: "sessionId ?r = ''5''"
    by (simp add: toString_5)
  note w = start_session_assigns_clock_id[OF fixed_example_reachable r]
  from w k have "map fst (sessions (fst (start_session 5 6 (Some (Fin 20)) (Some ''normal'') None
                   fixed_example))) = map fst (sessions fixed_example) @ [sessionId ?r]"
    by blast
  moreover from w have "distinct (map (s_id \<circ> snd)
      (sessions (fst (start_session 5 6 (Some (Fin 20)) (Some ''normal'') None fixed_example))))"
    by blast
  moreover from w k have "\<forall>k \<in> set (map fst (sessions fixed_example)).
      id_number k < id_number (sessionId ?r)"
    by blast
  ultimately show ?thesis
    unfolding i fixed_example_sessions by simp
qed


text \<open>
  C7 as stated fails when the clock has not advanced: a second start at the reading 0
  of the example session gets the id \<^verbatim>\<open>0\<close> again, which is neither fresh nor greater,
  and the new session (start time 5) takes the place of the stored one.
\<close>

theorem same_millisecond_start_reuses_id:
  "map fst (sessions fixed_example) = [''0'']
   \<and> map (startTime \<circ> snd) (sessions fixed_example) = [0]
   \<and> map_sum fst sessionId
        (snd (start_session 0 5 (Some (Fin 20)) (Some ''normal'') None fixed_example)) = Inr ''0''
   \<and> map fst (sessions (fst (start_session 0 5 (Some (Fin 20)) (Some ''normal'') None
        fixed_example))) = [''0'']
   \<and> map (startTime \<circ> snd) (sessions (fst (start_session 0 5 (Some (Fin 20)) (Some ''normal'')
        None fixed_example))) = [5]"
  by (simp add: start_session_no_hours toString_0 fixed_example_sessions example_fields
      fixed_example_tracking validate_example)

section \<open>The error of one rounding\<close>

lemma pow2_powi: "pow2 k = 2 powi k"
  by (simp add: pow2_def power_int_def power_divide)

lemma pow2_pos: "0 < pow2 k"
  by (simp add: pow2_powi)

lemma pow2_add: "pow2 (a + b) = pow2 a * pow2 b"
  by (simp add: pow2_powi power_int_add)

lemma pow2_minus: "pow2 (- a) = 1 / pow2 a"
  by (simp add: pow2_powi power_int_minus_divide)

lemma pow2_mono: "a \<le> b \<Longrightarrow> pow2 a \<le> pow2 b"
  by (simp add: pow2_powi power_int_increasing)

lemma pow2_nat: "0 \<le> k \<Longrightarrow> pow2 k = 2 ^ nat k"
  by (simp add: pow2_def)

lemma bitlen_pos: "0 < x \<Longrightarrow> 1 \<le> bitlen x"
  using bitlen_eq_zero_iff[of x] bitlen_nonneg[of x] by linarith

lemma floorlog2_lower:
  assumes "0 < a"
  shows "pow2 (floorlog2 a) \<le> a"
proof (cases "1 \<le> a")
  case True
  let ?n = "\<lfloor>a\<rfloor>"
  have n: "0 < ?n" using True by linarith
  have b: "1 \<le> bitlen ?n" using n by (rule bitlen_pos)
  have "(2::int) ^ nat (bitlen ?n - 1) \<le> ?n"
    using bitlen_bounds[OF n] by simp
  then have "real_of_int (2 ^ nat (bitlen ?n - 1)) \<le> real_of_int ?n"
    by (simp only: of_int_le_iff)
  moreover have "real_of_int (2 ^ nat (bitlen ?n - 1)) = 2 ^ nat (bitlen ?n - 1)"
    by simp
  ultimately have "(2::real) ^ nat (bitlen ?n - 1) \<le> a"
    using of_int_floor_le[of a] by linarith
  with True b show ?thesis
    by (simp add: floorlog2_def pow2_nat)
next
  case False
  let ?m = "\<lceil>1 / a\<rceil> - 1"
  have inv: "1 < 1 / a" using False assms by simp
  then have m: "0 < ?m" by linarith
  have "?m < 2 ^ nat (bitlen ?m)"
    using bitlen_bounds[OF m] by simp
  then have "\<lceil>1 / a\<rceil> \<le> 2 ^ nat (bitlen ?m)" by linarith
  then have "real_of_int \<lceil>1 / a\<rceil> \<le> real_of_int (2 ^ nat (bitlen ?m))"
    by (simp only: of_int_le_iff)
  moreover have "real_of_int (2 ^ nat (bitlen ?m)) = 2 ^ nat (bitlen ?m)"
    by simp
  ultimately have "1 / a \<le> 2 ^ nat (bitlen ?m)"
    using le_of_int_ceiling[of "1 / a"] by linarith
  then have "1 / 2 ^ nat (bitlen ?m) \<le> a"
    using assms by (simp add: field_simps)
  moreover have "pow2 (- bitlen ?m) = 1 / 2 ^ nat (bitlen ?m)"
    using bitlen_nonneg[of ?m] by (simp add: pow2_minus pow2_nat)
  ultimately show ?thesis
    using False by (simp add: floorlog2_def)
qed

lemma floorlog2_upper:
  assumes "0 < a"
  shows "a < pow2 (floorlog2 a + 1)"
proof (cases "1 \<le> a")
  case True
  let ?n = "\<lfloor>a\<rfloor>"
  have n: "0 < ?n" using True by linarith
  have b: "1 \<le> bitlen ?n" using n by (rule bitlen_pos)
  have "?n < 2 ^ nat (bitlen ?n)"
    using bitlen_bounds[OF n] by simp
  then have "?n + 1 \<le> 2 ^ nat (bitlen ?n)" by linarith
  then have "real_of_int (?n + 1) \<le> real_of_int (2 ^ nat (bitlen ?n))"
    by (simp only: of_int_le_iff)
  moreover have "real_of_int (2 ^ nat (bitlen ?n)) = 2 ^ nat (bitlen ?n)"
    by simp
  moreover have "real_of_int (?n + 1) = real_of_int ?n + 1"
    by simp
  ultimately have "a < 2 ^ nat (bitlen ?n)"
    using real_of_int_floor_add_one_gt[of a] by linarith
  with True b show ?thesis
    by (simp add: floorlog2_def pow2_nat)
next
  case False
  let ?m = "\<lceil>1 / a\<rceil> - 1"
  have inv: "1 < 1 / a" using False assms by simp
  then have m: "0 < ?m" by linarith
  have b: "1 \<le> bitlen ?m" using m by (rule bitlen_pos)
  have "(2::int) ^ nat (bitlen ?m - 1) \<le> ?m"
    using bitlen_bounds[OF m] by simp
  then have "real_of_int (2 ^ nat (bitlen ?m - 1)) \<le> real_of_int ?m"
    by (simp only: of_int_le_iff)
  moreover have "real_of_int ?m < 1 / a"
    using ceiling_correct[of "1 / a"] by simp
  moreover have "real_of_int (2 ^ nat (bitlen ?m - 1)) = 2 ^ nat (bitlen ?m - 1)"
    by simp
  ultimately have "(2::real) ^ nat (bitlen ?m - 1) < 1 / a"
    by linarith
  then have "a < 1 / 2 ^ nat (bitlen ?m - 1)"
    using assms by (simp add: field_simps)
  moreover have "pow2 (- bitlen ?m + 1) = 1 / 2 ^ nat (bitlen ?m - 1)"
  proof -
    have "pow2 (- bitlen ?m + 1) = pow2 (- (bitlen ?m - 1))" by simp
    also have "\<dots> = 1 / pow2 (bitlen ?m - 1)" by (rule pow2_minus)
    also have "\<dots> = 1 / 2 ^ nat (bitlen ?m - 1)" using b by (simp add: pow2_nat)
    finally show ?thesis .
  qed
  ultimately show ?thesis
    using False by (simp add: floorlog2_def)
qed

lemma round_half_even_close: "\<bar>real_of_int (round_half_even n) - n\<bar> \<le> 1 / 2"
  using of_int_floor_le[of n] real_of_int_floor_add_one_gt[of n]
  by (auto simp: round_half_even_def Let_def)

lemma round64_pos:
  assumes lo: "pow2 (- 1022) \<le> x" and hi: "x \<le> pow2 1023"
  shows "\<exists>y. round64 x = Fin y \<and> \<bar>y - x\<bar> \<le> x / 2 ^ 53"
proof -
  have x: "0 < x"
    using pow2_pos[of "- 1022"] lo by linarith
  define e where "e = floorlog2 x"
  have el: "pow2 e \<le> x" and eu: "x < pow2 (e + 1)"
    unfolding e_def using x by (rule floorlog2_lower, rule floorlog2_upper)
  have emin: "- 1022 \<le> e"
  proof (rule ccontr)
    assume "\<not> - 1022 \<le> e"
    then have "e + 1 \<le> - 1022" by simp
    then have "pow2 (e + 1) \<le> pow2 (- 1022)" by (rule pow2_mono)
    with lo eu show False by linarith
  qed
  define q where "q = pow2 (e - 52)"
  have q: "0 < q"
    unfolding q_def by (rule pow2_pos)
  have "pow2 (e - 52) = pow2 e * pow2 (- 52)"
    using pow2_add[of e "- 52"] by simp
  also have "pow2 (- 52) = 1 / 2 ^ 52"
    by (simp add: pow2_def)
  finally have qe: "q = pow2 e / 2 ^ 52"
    by (simp add: q_def)
  define r where "r = round_half_even (x / q)"
  define y where "y = real_of_int r * q"
  have "\<bar>real_of_int r - x / q\<bar> \<le> 1 / 2"
    unfolding r_def by (rule round_half_even_close)
  then have "\<bar>real_of_int r - x / q\<bar> * q \<le> 1 / 2 * q"
    using q by (intro mult_right_mono) simp_all
  moreover have "\<bar>real_of_int r - x / q\<bar> * q = \<bar>y - x\<bar>"
  proof -
    have "\<bar>real_of_int r - x / q\<bar> * q = \<bar>(real_of_int r - x / q) * q\<bar>"
      using q by (simp add: abs_mult)
    also have "(real_of_int r - x / q) * q = y - x"
      using q by (simp add: y_def field_simps)
    finally show ?thesis .
  qed
  ultimately have d: "\<bar>y - x\<bar> \<le> q / 2"
    by simp
  have "q / 2 = pow2 e / 2 ^ 53"
    by (simp add: qe)
  also have "\<dots> \<le> x / 2 ^ 53"
    using el by (simp add: divide_right_mono)
  finally have qx: "q / 2 \<le> x / 2 ^ 53" .
  from d qx have err: "\<bar>y - x\<bar> \<le> x / 2 ^ 53"
    by linarith
  have "x / 2 ^ 53 < x"
    using x by (simp add: field_simps)
  with err have "y < 2 * x" by linarith
  also have "2 * x \<le> 2 * pow2 1023"
    using hi by simp
  also have "2 * pow2 1023 = pow2 1024"
    using pow2_add[of 1 1023] by (simp add: pow2_def)
  finally have nov: "\<not> pow2 1024 \<le> y"
    by simp
  have ax: "\<bar>x\<bar> = x"
    using x by simp
  have m: "max (floorlog2 x) (- 1022) = floorlog2 x"
    using emin by (simp add: e_def)
  have "round64 x = Fin y"
    unfolding round64_def Let_def ax m
    using x nov by (simp add: y_def r_def q_def e_def)
  with err show ?thesis
    by blast
qed

lemma in_range_pos: "in_range k x \<Longrightarrow> 0 < x"
  using pow2_pos[of "- k"] by (simp add: in_range_def)

lemma in_range_mult:
  assumes "in_range a x" "in_range b y"
  shows "in_range (a + b) (x * y)"
proof -
  have "pow2 (- a) * pow2 (- b) \<le> x * y"
    using assms pow2_pos[of "- a"] pow2_pos[of "- b"]
    by (intro mult_mono) (simp_all add: in_range_def)
  moreover have "x * y \<le> pow2 a * pow2 b"
    using assms in_range_pos[OF assms(1)] in_range_pos[OF assms(2)] pow2_pos[of a]
    by (intro mult_mono) (simp_all add: in_range_def)
  ultimately show ?thesis
    using pow2_add[of "- a" "- b"] pow2_add[of a b] by (simp add: in_range_def)
qed

lemma in_range_inverse:
  assumes "in_range b y"
  shows "in_range b (1 / y)"
proof -
  have y: "0 < y" using assms by (rule in_range_pos)
  have "1 / y \<le> 1 / pow2 (- b)"
    using assms pow2_pos[of "- b"] by (intro divide_left_mono) (simp_all add: in_range_def)
  moreover have "1 / pow2 b \<le> 1 / y"
    using assms y pow2_pos[of b] by (intro divide_left_mono) (simp_all add: in_range_def)
  ultimately show ?thesis
    using pow2_pos[of b] by (simp add: in_range_def pow2_minus)
qed

lemma in_range_div:
  assumes "in_range a x" "in_range b y"
  shows "in_range (a + b) (x / y)"
  using in_range_mult[OF assms(1) in_range_inverse[OF assms(2)]] by simp

lemma round64_in_range:
  assumes "in_range k x" and "0 \<le> k" and "k \<le> 1021"
  shows "\<exists>y. round64 x = Fin y \<and> near x y \<and> in_range (k + 1) y"
proof -
  have x: "0 < x" using assms(1) by (rule in_range_pos)
  have "pow2 (- 1022) \<le> pow2 (- k)"
    using assms(3) by (intro pow2_mono) simp
  then have lo: "pow2 (- 1022) \<le> x"
    using assms(1) by (simp add: in_range_def)
  have "pow2 k \<le> pow2 1023"
    using assms(3) by (intro pow2_mono) simp
  then have hi: "x \<le> pow2 1023"
    using assms(1) by (simp add: in_range_def)
  from round64_pos[OF lo hi] obtain y where y: "round64 x = Fin y" "\<bar>y - x\<bar> \<le> x / 2 ^ 53"
    by blast
  have "x - x / 2 ^ 53 \<le> y" "y \<le> x + x / 2 ^ 53"
    using y(2) by linarith+
  then have n: "near x y"
    by (simp add: near_def algebra_simps)
  have "x / 2 ^ 53 \<le> x / 2"
    using x by (simp add: field_simps)
  with y(2) have h: "x / 2 \<le> y" "y \<le> 2 * x"
    using x by linarith+
  have "pow2 (- (k + 1)) = pow2 (- k) / 2"
    using pow2_add[of "- k" "- 1"] by (simp add: pow2_def)
  moreover have "pow2 (k + 1) = 2 * pow2 k"
    using pow2_add[of k 1] by (simp add: pow2_def)
  ultimately have "in_range (k + 1) y"
    using h assms(1) by (simp add: in_range_def)
  with y(1) n show ?thesis
    by blast
qed

lemma in_range_3600: "in_range 12 3600"
  by (simp add: in_range_def pow2_def)

lemma round_trip_error:
  assumes t: "0 < t" and h: "0 < h" and dp: "0 < d" and rp: "0 < \<rho>" and pp: "0 < p"
    and d: "near (h * 3600) d" and r: "near (t / d) \<rho>"
    and p: "near (\<rho> * h) p" and s: "near (p * 3600) s"
  shows "\<bar>s - t\<bar> \<le> t / 2 ^ 50"
proof -
  define A :: real where "A = 1 + 1 / 2 ^ 53"
  define B :: real where "B = 1 - 1 / 2 ^ 53"
  have A: "0 < A" and B: "0 < B"
    by (simp_all add: A_def B_def)
  have numA: "A * A * A \<le> (1 + 1 / 2 ^ 50) * B"
    by (simp add: A_def B_def)
  have numB: "(1 - 1 / 2 ^ 50) * A \<le> B * B * B"
    by (simp add: A_def B_def)
  have d1: "h * 3600 * B \<le> d" and d2: "d \<le> h * 3600 * A"
    using d by (simp_all add: near_def A_def B_def)
  have r1: "t / d * B \<le> \<rho>" and r2: "\<rho> \<le> t / d * A"
    using r by (simp_all add: near_def A_def B_def)
  have p1: "\<rho> * h * B \<le> p" and p2: "p \<le> \<rho> * h * A"
    using p by (simp_all add: near_def A_def B_def)
  have s1: "p * 3600 * B \<le> s" and s2: "s \<le> p * 3600 * A"
    using s by (simp_all add: near_def A_def B_def)
  have rd1: "t * B \<le> \<rho> * d"
  proof -
    have "t / d * B * d \<le> \<rho> * d"
      using r1 dp by (intro mult_right_mono) simp_all
    then show ?thesis using dp by simp
  qed
  have rd2: "\<rho> * d \<le> t * A"
  proof -
    have "\<rho> * d \<le> t / d * A * d"
      using r2 dp by (intro mult_right_mono) simp_all
    then show ?thesis using dp by simp
  qed
  have up: "s * B \<le> t * (A * A * A)"
  proof -
    have "s * B \<le> p * 3600 * A * B"
      using s2 B by (intro mult_right_mono) simp_all
    also have "\<dots> \<le> \<rho> * h * A * 3600 * A * B"
      using p2 A B by (simp add: mult_right_mono)
    also have "\<dots> = \<rho> * (A * A) * (h * 3600 * B)"
      by (simp add: algebra_simps)
    also have "\<dots> \<le> \<rho> * (A * A) * d"
      using d1 rp A by (intro mult_left_mono) simp_all
    also have "\<dots> = A * A * (\<rho> * d)"
      by (simp add: algebra_simps)
    also have "\<dots> \<le> A * A * (t * A)"
      using rd2 A by (intro mult_left_mono) simp_all
    finally show ?thesis
      by (simp add: algebra_simps)
  qed
  have low: "t * (B * B * B) \<le> s * A"
  proof -
    have "t * (B * B * B) = B * B * (t * B)"
      by (simp add: algebra_simps)
    also have "\<dots> \<le> B * B * (\<rho> * d)"
      using rd1 B by (intro mult_left_mono) simp_all
    also have "\<dots> = \<rho> * (B * B) * d"
      by (simp add: algebra_simps)
    also have "\<dots> \<le> \<rho> * (B * B) * (h * 3600 * A)"
      using d2 rp B by (intro mult_left_mono) simp_all
    also have "\<dots> = \<rho> * h * B * 3600 * B * A"
      by (simp add: algebra_simps)
    also have "\<dots> \<le> p * 3600 * B * A"
      using p1 A B by (simp add: mult_right_mono)
    also have "\<dots> \<le> s * A"
      using s1 A by (intro mult_right_mono) simp_all
    finally show ?thesis .
  qed
  have "s * B \<le> t * ((1 + 1 / 2 ^ 50) * B)"
  proof -
    have "t * (A * A * A) \<le> t * ((1 + 1 / 2 ^ 50) * B)"
      using numA t by (intro mult_left_mono) simp_all
    with up show ?thesis by linarith
  qed
  then have "s * B \<le> (t * (1 + 1 / 2 ^ 50)) * B"
    by (simp add: algebra_simps)
  then have u: "s \<le> t * (1 + 1 / 2 ^ 50)"
    using B by (simp only: mult_le_cancel_right_pos)
  have "t * ((1 - 1 / 2 ^ 50) * A) \<le> s * A"
  proof -
    have "t * ((1 - 1 / 2 ^ 50) * A) \<le> t * (B * B * B)"
      using numB t by (intro mult_left_mono) simp_all
    with low show ?thesis by linarith
  qed
  then have "(t * (1 - 1 / 2 ^ 50)) * A \<le> s * A"
    by (simp add: algebra_simps)
  then have l: "t * (1 - 1 / 2 ^ 50) \<le> s"
    using A by (simp only: mult_le_cancel_right_pos)
  define c where "c = t / 2 ^ 50"
  have "t * (1 + 1 / 2 ^ 50) = t + c" "t * (1 - 1 / 2 ^ 50) = t - c"
    by (simp_all add: c_def algebra_simps)
  with u l have "s \<le> t + c" "t - c \<le> s"
    by simp_all
  then have "\<bar>s - t\<bar> \<le> c"
    by linarith
  then show ?thesis
    by (simp only: c_def)
qed

section \<open>Rounding yields doubles\<close>

lemma floorlog2_unique:
  assumes "0 < a" and "pow2 e \<le> a" and "a < pow2 (e + 1)"
  shows "floorlog2 a = e"
proof (rule ccontr)
  assume ne: "floorlog2 a \<noteq> e"
  let ?f = "floorlog2 a"
  have l: "pow2 ?f \<le> a" and u: "a < pow2 (?f + 1)"
    using assms(1) by (rule floorlog2_lower, rule floorlog2_upper)
  show False
  proof (cases "?f < e")
    case True
    then have "pow2 (?f + 1) \<le> pow2 e" by (intro pow2_mono) simp
    with u assms(2) show False by linarith
  next
    case False
    with ne have "e + 1 \<le> ?f" by simp
    then have "pow2 (e + 1) \<le> pow2 ?f" by (rule pow2_mono)
    with l assms(3) show False by linarith
  qed
qed

lemma round_half_even_of_int: "round_half_even (of_int k) = k"
  by (simp add: round_half_even_def)

lemma round64_minus: "round64 (- a) = jsneg (round64 a)"
  by (cases "a = 0") (auto simp: round64_def Let_def)

lemma pow2_int: "0 \<le> k \<Longrightarrow> pow2 k = of_int (2 ^ nat k)"
  by (simp add: pow2_nat)

text \<open>A positive integer below \<open>2 ^ 53\<close>, scaled by a power of two not below the least
  quantum, rounds to itself.\<close>

lemma round64_scaled_int:
  assumes r: "0 < r" and r53: "r < 2 ^ 53" and c: "- 1074 \<le> c"
    and nov: "of_int r * pow2 c < pow2 1024"
  shows "round64 (of_int r * pow2 c) = Fin (of_int r * pow2 c)"
proof -
  let ?y = "real_of_int r * pow2 c"
  define k where "k = bitlen r - 1"
  have k0: "0 \<le> k"
    using bitlen_pos[OF r] by (simp add: k_def)
  have b: "2 ^ nat k \<le> r" "r < 2 ^ nat (k + 1)"
    using bitlen_bounds[OF r] by (simp_all add: k_def)
  have k52: "k \<le> 52"
  proof (rule ccontr)
    assume "\<not> k \<le> 52"
    then have "53 \<le> nat k" by simp
    then have "(2::int) ^ 53 \<le> 2 ^ nat k" by (intro power_increasing) simp_all
    with b(1) r53 show False by linarith
  qed
  have y: "0 < ?y"
    using r pow2_pos[of c] by simp
  have "real_of_int (2 ^ nat k) \<le> real_of_int r" "real_of_int r < real_of_int (2 ^ nat (k + 1))"
    using b by (simp_all only: of_int_le_iff of_int_less_iff)
  then have rb: "pow2 k \<le> real_of_int r" "real_of_int r < pow2 (k + 1)"
    using k0 by (simp_all add: pow2_nat)
  have yl: "pow2 (k + c) \<le> ?y"
    using rb(1) pow2_pos[of c] by (simp add: pow2_add mult_right_mono)
  have yu: "?y < pow2 (k + c + 1)"
  proof -
    have "?y < pow2 (k + 1) * pow2 c"
      using rb(2) pow2_pos[of c] by (simp add: mult_strict_right_mono)
    also have "\<dots> = pow2 (k + c + 1)"
      using pow2_add[of "k + 1" c] by (simp add: algebra_simps)
    finally show ?thesis .
  qed
  have fl: "floorlog2 ?y = k + c"
    using y yl yu by (rule floorlog2_unique)
  define e where "e = max (k + c) (- 1022)"
  define q where "q = pow2 (e - 52)"
  have q: "0 < q"
    unfolding q_def by (rule pow2_pos)
  have ex: "0 \<le> c - (e - 52)"
    using c k0 k52 by (simp add: e_def max_def)
  have "pow2 c = pow2 (c - (e - 52)) * q"
    using pow2_add[of "c - (e - 52)" "e - 52"] by (simp add: q_def)
  also have "pow2 (c - (e - 52)) = real_of_int (2 ^ nat (c - (e - 52)))"
    using ex by (rule pow2_int)
  finally have pc: "pow2 c = real_of_int (2 ^ nat (c - (e - 52))) * q" .
  define j where "j = r * 2 ^ nat (c - (e - 52))"
  have yj: "?y = real_of_int j * q"
    by (simp add: pc j_def)
  have dq: "?y / q = real_of_int j"
    using q by (simp add: yj)
  define Y where "Y = real_of_int r * pow2 c"
  have Y: "0 < Y" "floorlog2 Y = k + c" "Y / q = real_of_int j" "Y = real_of_int j * q"
    "Y < pow2 1024"
    using y fl dq yj nov by (simp_all only: Y_def)
  have aY: "\<bar>Y\<bar> = Y"
    using Y(1) by simp
  have "round64 Y = (if pow2 1024 \<le> Y then Inf False else Fin Y)"
    unfolding round64_def Let_def aY Y(2) e_def[symmetric] q_def[symmetric] Y(3)
      round_half_even_of_int Y(4)[symmetric]
    using Y(1) by simp
  with Y(5) have "round64 Y = Fin Y"
    by simp
  then show ?thesis
    by (simp only: Y_def)
qed

lemma pow2_53: "pow2 53 = 2 ^ 53"
  by (simp add: pow2_def)

lemma pow2_1: "pow2 1 = 2"
  by (simp add: pow2_def)

lemma round64_pos_is_double:
  assumes x: "0 < x" and res: "round64 x = Fin y"
  shows "is_double y"
proof -
  define e where "e = max (floorlog2 x) (- 1022)"
  define q where "q = pow2 (e - 52)"
  define R where "R = round_half_even (x / q)"
  have q: "0 < q"
    unfolding q_def by (rule pow2_pos)
  have ax: "\<bar>x\<bar> = x"
    using x by simp
  have unf: "round64 x = (if pow2 1024 \<le> real_of_int R * q then Inf False
                          else Fin (real_of_int R * q))"
    unfolding round64_def Let_def ax e_def[symmetric] q_def[symmetric] R_def[symmetric]
    using x by simp
  with res have nov: "real_of_int R * q < pow2 1024" and y: "y = real_of_int R * q"
    by (auto split: if_splits)
  have e1022: "- 1022 \<le> e"
    by (simp add: e_def)
  have "x < pow2 (floorlog2 x + 1)"
    using x by (rule floorlog2_upper)
  also have "\<dots> \<le> pow2 (e + 1)"
    by (intro pow2_mono) (simp add: e_def)
  also have "\<dots> = q * 2 ^ 53"
    using pow2_add[of "e - 52" 53] by (simp add: q_def pow2_53 add.commute)
  finally have n53: "x / q < 2 ^ 53"
    using q by (simp add: field_simps)
  have n0: "0 < x / q"
    using x q by simp
  have cl: "\<bar>real_of_int R - x / q\<bar> \<le> 1 / 2"
    unfolding R_def by (rule round_half_even_close)
  have "- 1 < real_of_int R"
    using cl n0 by linarith
  then have R0: "0 \<le> R"
    by linarith
  have "real_of_int R < 2 ^ 53 + 1"
    using cl n53 by linarith
  then have "real_of_int R < real_of_int (2 ^ 53 + 1)"
    by simp
  then have "R < 2 ^ 53 + 1"
    by (simp only: of_int_less_iff)
  then have R53: "R \<le> 2 ^ 53"
    by simp
  consider "R = 0" | "0 < R" "R < 2 ^ 53" | "R = 2 ^ 53"
    using R0 R53 by linarith
  then show ?thesis
  proof cases
    case 1
    then show ?thesis
      by (simp add: y is_double_def round64_def)
  next
    case 2
    have "round64 (real_of_int R * pow2 (e - 52)) = Fin (real_of_int R * pow2 (e - 52))"
      using 2 e1022 nov by (intro round64_scaled_int) (simp_all add: q_def)
    then show ?thesis
      by (simp add: y is_double_def q_def)
  next
    case 3
    have split: "real_of_int R * q = real_of_int (2 ^ 52) * pow2 (e - 51)"
      using pow2_add[of "e - 52" 1] by (simp add: 3 q_def pow2_1 add.commute)
    have "round64 (real_of_int (2 ^ 52) * pow2 (e - 51)) = Fin (real_of_int (2 ^ 52) * pow2 (e - 51))"
      using e1022 nov unfolding split by (intro round64_scaled_int) simp_all
    then show ?thesis
      by (simp only: y split is_double_def)
  qed
qed

lemma is_double_minus: "is_double y \<Longrightarrow> is_double (- y)"
  by (simp add: is_double_def round64_minus)

lemma round64_is_double:
  assumes "round64 x = Fin y"
  shows "is_double y"
proof -
  consider "x = 0" | "0 < x" | "x < 0" by linarith
  then show ?thesis
  proof cases
    case 1
    with assms show ?thesis
      by (simp add: round64_def is_double_def)
  next
    case 2
    then show ?thesis using assms by (rule round64_pos_is_double)
  next
    case 3
    have "round64 (- x) = jsneg (round64 x)"
      by (rule round64_minus)
    with assms have "round64 (- x) = Fin (- y)"
      by simp
    with 3 have "is_double (- y)"
      by (intro round64_pos_is_double[of "- x"]) simp_all
    then have "is_double (- (- y))"
      by (rule is_double_minus)
    then show ?thesis by simp
  qed
qed

lemma is_number_round64: "is_number (round64 x)"
  by (cases "round64 x") (simp_all add: round64_is_double)

lemma is_number_jsadd: "is_number (jsadd a b)"
  by (cases a; cases b) (simp_all add: is_number_round64)

section \<open>Stopping an open-ended session\<close>

lemma js_plus_null: "is_number w \<Longrightarrow> js_plus (PNum w) None = PNum w"
  by (simp add: js_plus_def jsadd_zero)

text \<open>
  While the two totals are numbers, stopping a session whose \<open>totalHours\<close> is \<^verbatim>\<open>null\<close>
  leaves them as they are: \<^verbatim>\<open>null\<close> counts as \<open>0\<close> in both sums.
\<close>

lemma stop_open_ended_number_totals:
  assumes "map_of (sessions st) sid = Some s" and "totalHours s = None"
    and "get_tracking (userOvertimeTracking st) ''default'' = \<lparr>weekly = PNum w, yearly = PNum y\<rparr>"
    and "is_number w" and "is_number y"
  shows "get_tracking (userOvertimeTracking (fst (stop_session now sid st))) u
         = get_tracking (userOvertimeTracking st) u"
  using assms(2-5) by (simp add: stop_session_adds_hours[OF assms(1)] js_plus_null)

lemma open_example_state:
  "open_example =
     \<lparr>sessions =
        [(''0'', \<lparr>s_id = ''0'', s_hourlyRate = Fin 20, overtimeType = ''normal'',
                  totalHours = None,
                  s_calculation = calculateOvertimePayFromRate (Fin 20) ''normal'' (Fin 1),
                  startTime = 0, isActive = True, currentEarnings = Fin 0, s_warnings = [],
                  isOpenEnded = True, endTime = None, duration = None, elapsedTime = None,
                  remainingTime = None\<rparr>)],
      userOvertimeTracking = Map.empty\<rparr>"
proof -
  have u: "userOvertimeTracking initial_state = Map.empty" "sessions initial_state = []"
    by (simp_all add: initial_state_def)
  have "open_example = initial_state\<lparr>sessions := AList.update (toString 0)
          \<lparr>s_id = toString 0, s_hourlyRate = Fin 20, overtimeType = ''normal'',
           totalHours = None,
           s_calculation = calculateOvertimePayFromRate (Fin 20) ''normal'' (Fin 1),
           startTime = 0, isActive = True, currentEarnings = Fin 0, s_warnings = [],
           isOpenEnded = True, endTime = None, duration = None, elapsedTime = None,
           remainingTime = None\<rparr> (sessions initial_state)\<rparr>"
    unfolding open_example_def
    by (simp add: start_session_no_hours u validate_example)
  then show ?thesis
    by (simp add: initial_state_def toString_0)
qed

lemma number_of_2: "string_to_number ''2'' = Fin 2"
  by (simp add: string_eval round64_eval)

lemma number_of_02: "string_to_number ''02'' = Fin 2"
  by (simp add: string_eval round64_eval)

lemma number_of_02null: "string_to_number ''02null'' = NaN"
  by (simp add: string_eval)

lemma plus_0_2: "js_plus (PNum (Fin 0)) (Some (PStr ''2'')) = PStr ''02''"
  by (simp add: js_plus_def number_to_string_def)

lemma plus_02_null: "js_plus (PStr ''02'') None = PStr ''02null''"
  by (simp add: js_plus_def)

lemma validate_2_string:
  "validateOvertimeHours Map.empty (PStr ''2'') ''normal'' ''default''
   = Inr \<lparr>isValid = True, errors = [], warnings = []\<rparr>"
  by (simp add: validateOvertimeHours_def Let_def get_tracking_def plus_0_2 number_of_2
      number_of_02 jsgt_def MAX_HOURS_PER_DAY_def MAX_HOURS_PER_WEEK_def
      MAX_HOURS_PER_YEAR_def)

lemma string_example_sessions:
  "sessions string_example =
     [(''0'', \<lparr>s_id = ''0'', s_hourlyRate = Fin 20, overtimeType = ''normal'',
               totalHours = None,
               s_calculation = calculateOvertimePayFromRate (Fin 20) ''normal'' (Fin 1),
               startTime = 0, isActive = True, currentEarnings = Fin 0, s_warnings = [],
               isOpenEnded = True, endTime = None, duration = None, elapsedTime = None,
               remainingTime = None\<rparr>),
      (''5'', \<lparr>s_id = ''5'', s_hourlyRate = Fin 20, overtimeType = ''normal'',
               totalHours = Some (PStr ''2''),
               s_calculation = calculateOvertimePayFromRate (Fin 20) ''normal'' (Fin 2),
               startTime = 5, isActive = True, currentEarnings = Fin 0, s_warnings = [],
               isOpenEnded = False, endTime = None, duration = None, elapsedTime = None,
               remainingTime = None\<rparr>)]"
  unfolding string_example_def open_example_state
  by (simp add: start_session_def Let_def validate_2_string number_of_2 toString_5)

lemma string_example_tracking: "userOvertimeTracking string_example = Map.empty"
  unfolding string_example_def
  by (simp add: start_session_tracking open_example_state)

lemma string_example_reachable: "reachable string_example"
  unfolding string_example_def open_example_def
  by (intro reachable.start reachable.init)

lemma string_example_totals_0:
  "get_tracking (userOvertimeTracking string_example) ''default''
   = \<lparr>weekly = PNum (Fin 0), yearly = PNum (Fin 0)\<rparr>"
  by (simp add: string_example_tracking get_tracking_def)

lemma string_example_totals_1:
  "get_tracking (userOvertimeTracking (fst (stop_session 1000 ''5'' string_example))) ''default''
   = \<lparr>weekly = PStr ''02'', yearly = PStr ''02''\<rparr>"
proof -
  have "\<exists>s. map_of (sessions string_example) ''5'' = Some s \<and> totalHours s = Some (PStr ''2'')"
    unfolding string_example_sessions by simp
  then obtain s where s: "map_of (sessions string_example) ''5'' = Some s"
      "totalHours s = Some (PStr ''2'')"
    by blast
  show ?thesis
    by (simp add: stop_session_adds_hours[OF s(1)] s(2) string_example_totals_0 plus_0_2)
qed

lemma string_example_totals_2:
  "get_tracking (userOvertimeTracking
     (fst (stop_session 2000 ''0'' (fst (stop_session 1000 ''5'' string_example))))) ''default''
   = \<lparr>weekly = PStr ''02null'', yearly = PStr ''02null''\<rparr>"
proof -
  have "\<exists>s. map_of (sessions (fst (stop_session 1000 ''5'' string_example))) ''0'' = Some s
            \<and> totalHours s = None"
    unfolding stop_session_def string_example_sessions by (simp add: Let_def)
  then obtain s where s: "map_of (sessions (fst (stop_session 1000 ''5'' string_example))) ''0''
        = Some s" "totalHours s = None"
    by blast
  show ?thesis
    by (simp add: stop_session_adds_hours[OF s(1)] s(2) string_example_totals_1 plus_02_null)
qed


text \<open>
  C10 evaluated. The totals are whatever \<^verbatim>\<open>+=\<close> has made of the \<^verbatim>\<open>hours\<close> fields, which
  the handlers never check to be numbers. In the second example the session \<^verbatim>\<open>0\<close> is
  open-ended and the session \<^verbatim>\<open>5\<close> has the string \<^verbatim>\<open>'2'\<close> for its hours. Stopping the
  session \<^verbatim>\<open>5\<close> turns both totals from the number 0 into the string \<^verbatim>\<open>'02'\<close>, which
  counts as 2; stopping the open-ended session then appends \<^verbatim>\<open>null\<close> as text, so both
  totals are \<^verbatim>\<open>'02null'\<close>, which is no number at all.
\<close>

theorem stop_open_ended_appends_null:
  "reachable string_example
   \<and> map (\<lambda>(k, s). (k, totalHours s, isOpenEnded s)) (sessions string_example)
       = [(''0'', None, True), (''5'', Some (PStr ''2''), False)]
   \<and> get_tracking (userOvertimeTracking string_example) ''default''
       = \<lparr>weekly = PNum (Fin 0), yearly = PNum (Fin 0)\<rparr>
   \<and> get_tracking (userOvertimeTracking (fst (stop_session 1000 ''5'' string_example))) ''default''
       = \<lparr>weekly = PStr ''02'', yearly = PStr ''02''\<rparr>
   \<and> get_tracking (userOvertimeTracking
         (fst (stop_session 2000 ''0'' (fst (stop_session 1000 ''5'' string_example))))) ''default''
       = \<lparr>weekly = PStr ''02null'', yearly = PStr ''02null''\<rparr>
   \<and> prim_number (PStr ''02'') = Fin 2
   \<and> prim_number (PStr ''02null'') = NaN"
  by (simp add: string_example_reachable string_example_sessions string_example_totals_0
      string_example_totals_1 string_example_totals_2 number_of_02 number_of_02null)

section \<open>The pay calculation\<close>

lemma multiplier_not_inherited:
  "k \<notin> set object_prototype_names \<Longrightarrow>
   val_or (OVERTIME_MULTIPLIERS k) (Fin (3 / 2)) = Num (Fin (spec_multiplier k))"
  by (simp add: OVERTIME_MULTIPLIERS_def spec_multiplier_def)

lemma spec_multiplier_range: "in_range 2 (spec_multiplier k)"
  by (simp add: spec_multiplier_def in_range_def pow2_def)

lemma pay_round_trip:
  assumes r: "in_range 200 r" and h: "in_range 200 h" and m: "in_range 2 m"
  shows "\<exists>t s. jsmul (jsmul (Fin r) (Fin m)) (Fin h) = Fin t \<and> 0 < t
           \<and> jsmul (jsmul (jsdiv (Fin t) (jsmul (Fin h) (Fin 3600))) (Fin h)) (Fin 3600) = Fin s
           \<and> \<bar>s - t\<bar> \<le> t / 2 ^ 50"
proof -
  have "in_range 202 (r * m)"
    using in_range_mult[OF r m] by simp
  from round64_in_range[OF this] obtain y where
    y: "round64 (r * m) = Fin y" "in_range 203 y"
    by auto
  have "in_range 403 (y * h)"
    using in_range_mult[OF y(2) h] by simp
  from round64_in_range[OF this] obtain t where
    t: "round64 (y * h) = Fin t" "in_range 404 t"
    by auto
  have "in_range 212 (h * 3600)"
    using in_range_mult[OF h in_range_3600] by simp
  from round64_in_range[OF this] obtain d where
    d: "round64 (h * 3600) = Fin d" "near (h * 3600) d" "in_range 213 d"
    by auto
  have "in_range 617 (t / d)"
    using in_range_div[OF t(2) d(3)] by simp
  from round64_in_range[OF this] obtain \<rho> where
    rho: "round64 (t / d) = Fin \<rho>" "near (t / d) \<rho>" "in_range 618 \<rho>"
    by auto
  have "in_range 818 (\<rho> * h)"
    using in_range_mult[OF rho(3) h] by simp
  from round64_in_range[OF this] obtain p where
    p: "round64 (\<rho> * h) = Fin p" "near (\<rho> * h) p" "in_range 819 p"
    by auto
  have "in_range 831 (p * 3600)"
    using in_range_mult[OF p(3) in_range_3600] by simp
  from round64_in_range[OF this] obtain s where
    s: "round64 (p * 3600) = Fin s" "near (p * 3600) s"
    by auto
  have pos: "0 < t" "0 < h" "0 < d" "0 < \<rho>" "0 < p"
    using t(2) h d(3) rho(3) p(3) by (auto dest: in_range_pos)
  have e: "\<bar>s - t\<bar> \<le> t / 2 ^ 50"
    using pos d(2) rho(2) p(2) s(2) by (rule round_trip_error)
  have "jsmul (jsmul (Fin r) (Fin m)) (Fin h) = Fin t"
    by (simp add: y(1) t(1))
  moreover have "jsmul (jsmul (jsdiv (Fin t) (jsmul (Fin h) (Fin 3600))) (Fin h)) (Fin 3600) = Fin s"
    using pos(3) by (simp add: d(1) rho(1) p(1) s(1))
  ultimately show ?thesis
    using pos(1) e by blast
qed

lemma normal_not_inherited: "''normal'' \<notin> set object_prototype_names"
  by (simp add: object_prototype_names_def)

lemma in_range_200_examples:
  "in_range 200 (1465780941220741 / 70368744177664)" "in_range 200 2"
  by (simp_all add: in_range_def pow2_def)

lemma pay_example:
  "calculateOvertimePayFromRate (Fin (1465780941220741 / 70368744177664)) ''normal'' (Fin 2)
   = \<lparr>hourlyRate = Fin (1465780941220741 / 70368744177664), multiplier = Num (Fin (3 / 2)),
      totalPay = Fin (4397342823662223 / 70368744177664),
      ratePerSecond = Fin (5003198946033463 / 576460752303423488)\<rparr>"
  by (simp add: calculateOvertimePayFromRate_def OVERTIME_MULTIPLIERS_def round64_eval)

lemma pay_example_back:
  "jsmul (jsmul (Fin (5003198946033463 / 576460752303423488)) (Fin 2)) (Fin 3600)
   = Fin (8794685647324447 / 140737488355328)"
  by (simp add: round64_eval)

lemma pay_inherited_name:
  "calculateOvertimePayFromRate (Fin 20) ''toString'' (Fin 1)
   = \<lparr>hourlyRate = Fin 20, multiplier = Obj, totalPay = NaN, ratePerSecond = NaN\<rparr>"
  by (simp add: calculateOvertimePayFromRate_def OVERTIME_MULTIPLIERS_def
      object_prototype_names_def)


text \<open>
  C5, as amended. For every hourly rate and hours, and every overtime type that is not
  the name of a property inherited from \<^verbatim>\<open>Object.prototype\<close>, the calculation returns the
  multiplier of the specification (1.5, 1.75, 2.0, 2.5, and 1.5 for another type), and
  \<^verbatim>\<open>totalPay == hourlyRate * multiplier * hours\<close> and
  \<^verbatim>\<open>ratePerSecond == totalPay / (hours * 3600)\<close>, both in the double arithmetic of the code.
  For a rate and hours between \<open>pow2 (- 200)\<close> and \<open>pow2 200\<close> the pay is a positive
  double, and \<^verbatim>\<open>ratePerSecond * hours * 3600\<close> equals it up to a relative error of
  \<open>1 / 2 ^ 50\<close>.
\<close>

theorem pay_from_rate:
  assumes "type \<notin> set object_prototype_names"
  shows "hourlyRate (calculateOvertimePayFromRate rate type hours) = rate
     \<and> multiplier (calculateOvertimePayFromRate rate type hours)
         = Num (Fin (spec_multiplier type))
     \<and> totalPay (calculateOvertimePayFromRate rate type hours)
         = jsmul (jsmul rate (Fin (spec_multiplier type))) hours
     \<and> ratePerSecond (calculateOvertimePayFromRate rate type hours)
         = jsdiv (totalPay (calculateOvertimePayFromRate rate type hours))
             (jsmul hours (Fin 3600))
     \<and> (in_range 200 r \<and> in_range 200 h \<longrightarrow>
          (\<exists>t s. totalPay (calculateOvertimePayFromRate (Fin r) type (Fin h)) = Fin t
             \<and> 0 < t
             \<and> jsmul (jsmul (ratePerSecond (calculateOvertimePayFromRate (Fin r) type (Fin h)))
                   (Fin h)) (Fin 3600) = Fin s
             \<and> \<bar>s - t\<bar> \<le> t / 2 ^ 50))"
proof -
  have c: "calculateOvertimePayFromRate x type y =
      \<lparr>hourlyRate = x, multiplier = Num (Fin (spec_multiplier type)),
       totalPay = jsmul (jsmul x (Fin (spec_multiplier type))) y,
       ratePerSecond = jsdiv (jsmul (jsmul x (Fin (spec_multiplier type))) y)
                         (jsmul y (Fin 3600))\<rparr>" for x y
    using assms by (simp add: calculateOvertimePayFromRate_def Let_def multiplier_not_inherited)
  have "\<exists>t s. jsmul (jsmul (Fin r) (Fin (spec_multiplier type))) (Fin h) = Fin t \<and> 0 < t
           \<and> jsmul (jsmul (jsdiv (Fin t) (jsmul (Fin h) (Fin 3600))) (Fin h)) (Fin 3600) = Fin s
           \<and> \<bar>s - t\<bar> \<le> t / 2 ^ 50"
    if "in_range 200 r" "in_range 200 h"
    using that spec_multiplier_range by (rule pay_round_trip)
  then show ?thesis
    unfolding c by (simp only: calculation.simps) metis
qed

text \<open>The example of the specification: the double 20.83, type \<^verbatim>\<open>normal\<close>, 2 hours.\<close>

theorem pay_from_rate_witness:
  "''normal'' \<notin> set object_prototype_names
   \<and> in_range 200 (1465780941220741 / 70368744177664) \<and> in_range 200 2
   \<and> multiplier (calculateOvertimePayFromRate (Fin (1465780941220741 / 70368744177664))
        ''normal'' (Fin 2)) = Num (Fin (3 / 2))
   \<and> (\<exists>t s. totalPay (calculateOvertimePayFromRate (Fin (1465780941220741 / 70368744177664))
                 ''normal'' (Fin 2)) = Fin t
          \<and> jsmul (jsmul (ratePerSecond (calculateOvertimePayFromRate
                 (Fin (1465780941220741 / 70368744177664)) ''normal'' (Fin 2))) (Fin 2)) (Fin 3600)
              = Fin s
          \<and> \<bar>s - t\<bar> \<le> t / 2 ^ 50)"
proof -
  note w = pay_from_rate[OF normal_not_inherited,
      of "Fin (1465780941220741 / 70368744177664)" "Fin 2" "1465780941220741 / 70368744177664" 2]
  have m: "spec_multiplier ''normal'' = 3 / 2"
    by (simp add: spec_multiplier_def)
  from w in_range_200_examples normal_not_inherited show ?thesis
    unfolding m by blast
qed


text \<open>
  C5 as stated fails twice. At the double 20.83 (the rounding of 2083/100), type
  \<^verbatim>\<open>normal\<close> and 2 hours, \<open>totalPay\<close> is the double 62.489999999999995 and
  \<^verbatim>\<open>ratePerSecond * hours * 3600\<close> is the double 62.49. For the type \<^verbatim>\<open>toString\<close> the
  property read finds an inherited function, so the multiplier is not 1.5 and the pay
  is \<open>NaN\<close>.
\<close>

theorem pay_round_trip_not_exact:
  "round64 (2083 / 100) = Fin (1465780941220741 / 70368744177664)
   \<and> totalPay (calculateOvertimePayFromRate (Fin (1465780941220741 / 70368744177664))
        ''normal'' (Fin 2)) = Fin (4397342823662223 / 70368744177664)
   \<and> jsmul (jsmul (ratePerSecond (calculateOvertimePayFromRate
          (Fin (1465780941220741 / 70368744177664)) ''normal'' (Fin 2))) (Fin 2)) (Fin 3600)
       = Fin (8794685647324447 / 140737488355328)
   \<and> jsmul (jsmul (ratePerSecond (calculateOvertimePayFromRate
          (Fin (1465780941220741 / 70368744177664)) ''normal'' (Fin 2))) (Fin 2)) (Fin 3600)
       \<noteq> totalPay (calculateOvertimePayFromRate (Fin (1465780941220741 / 70368744177664))
            ''normal'' (Fin 2))
   \<and> multiplier (calculateOvertimePayFromRate (Fin 20) ''toString'' (Fin 1)) \<noteq> Num (Fin (3 / 2))
   \<and> totalPay (calculateOvertimePayFromRate (Fin 20) ''toString'' (Fin 1)) = NaN"
proof -
  have l: "round64 (2083 / 100) = Fin (1465780941220741 / 70368744177664)"
    by (simp add: round64_eval)
  have r: "ratePerSecond (calculateOvertimePayFromRate (Fin (1465780941220741 / 70368744177664))
             ''normal'' (Fin 2)) = Fin (5003198946033463 / 576460752303423488)"
    and t: "totalPay (calculateOvertimePayFromRate (Fin (1465780941220741 / 70368744177664))
             ''normal'' (Fin 2)) = Fin (4397342823662223 / 70368744177664)"
    by (simp_all add: pay_example)
  show ?thesis
    unfolding r t pay_example_back pay_inherited_name
    using l by simp
qed

section \<open>The hourly rate\<close>

lemma in_range_30: "in_range 5 30"
  by (simp add: in_range_def pow2_def)

lemma quotient_error:
  assumes x: "0 < s" and d: "0 < d" and e: "0 < e"
    and ne: "near (30 * d) e" and nq: "near (s / e) q"
  shows "\<bar>q - s / (30 * d)\<bar> \<le> s / (30 * d) / 2 ^ 51"
proof -
  define A :: real where "A = 1 + 1 / 2 ^ 53"
  define B :: real where "B = 1 - 1 / 2 ^ 53"
  define x where "x = s / (30 * d)"
  have A: "0 < A" and B: "0 < B"
    by (simp_all add: A_def B_def)
  have xp: "0 < x"
    using x d by (simp add: x_def)
  have sx: "s = x * (30 * d)"
    using d by (simp add: x_def)
  have numA: "A \<le> (1 + 1 / 2 ^ 51) * B"
    by (simp add: A_def B_def)
  have numB: "(1 - 1 / 2 ^ 51) * A \<le> B"
    by (simp add: A_def B_def)
  have e1: "30 * d * B \<le> e" and e2: "e \<le> 30 * d * A"
    using ne by (simp_all add: near_def A_def B_def)
  have q1: "s / e * B \<le> q" and q2: "q \<le> s / e * A"
    using nq by (simp_all add: near_def A_def B_def)
  have qp: "0 < q"
  proof -
    have "0 < s / e * B" using x e B by simp
    with q1 show ?thesis by linarith
  qed
  have qe1: "s * B \<le> q * e"
  proof -
    have "s / e * B * e \<le> q * e"
      using q1 e by (intro mult_right_mono) simp_all
    then show ?thesis using e by simp
  qed
  have qe2: "q * e \<le> s * A"
  proof -
    have "q * e \<le> s / e * A * e"
      using q2 e by (intro mult_right_mono) simp_all
    then show ?thesis using e by simp
  qed
  have up: "q * B \<le> x * A"
  proof -
    have "q * (30 * d * B) \<le> q * e"
      using e1 qp by (intro mult_left_mono) simp_all
    with qe2 have "q * (30 * d * B) \<le> x * (30 * d) * A"
      unfolding sx[symmetric] by linarith
    then have "(q * B) * (30 * d) \<le> (x * A) * (30 * d)"
      by (simp add: algebra_simps)
    then show ?thesis
      using d by (simp only: mult_le_cancel_right_pos)
  qed
  have low: "x * B \<le> q * A"
  proof -
    have "q * e \<le> q * (30 * d * A)"
      using e2 qp by (intro mult_left_mono) simp_all
    with qe1 have "x * (30 * d) * B \<le> q * (30 * d * A)"
      unfolding sx[symmetric] by linarith
    then have "(x * B) * (30 * d) \<le> (q * A) * (30 * d)"
      by (simp add: algebra_simps)
    then show ?thesis
      using d by (simp only: mult_le_cancel_right_pos)
  qed
  have "q * B \<le> x * ((1 + 1 / 2 ^ 51) * B)"
  proof -
    have "x * A \<le> x * ((1 + 1 / 2 ^ 51) * B)"
      using numA xp by (intro mult_left_mono) simp_all
    with up show ?thesis by linarith
  qed
  then have "q * B \<le> (x * (1 + 1 / 2 ^ 51)) * B"
    by (simp add: algebra_simps)
  then have u: "q \<le> x * (1 + 1 / 2 ^ 51)"
    using B by (simp only: mult_le_cancel_right_pos)
  have "x * ((1 - 1 / 2 ^ 51) * A) \<le> q * A"
  proof -
    have "x * ((1 - 1 / 2 ^ 51) * A) \<le> x * B"
      using numB xp by (intro mult_left_mono) simp_all
    with low show ?thesis by linarith
  qed
  then have "(x * (1 - 1 / 2 ^ 51)) * A \<le> q * A"
    by (simp add: algebra_simps)
  then have l: "x * (1 - 1 / 2 ^ 51) \<le> q"
    using A by (simp only: mult_le_cancel_right_pos)
  define c where "c = x / 2 ^ 51"
  have "x * (1 + 1 / 2 ^ 51) = x + c" "x * (1 - 1 / 2 ^ 51) = x - c"
    by (simp_all add: c_def algebra_simps)
  with u l have "q \<le> x + c" "x - c \<le> q"
    by simp_all
  then have "\<bar>q - x\<bar> \<le> c"
    by linarith
  then show ?thesis
    by (simp only: c_def x_def)
qed


text \<open>
  C6. \<open>calculateHourlyRate salary dailyHours\<close> equals \<^verbatim>\<open>salary / (30 * dailyHours)\<close> in
  the double arithmetic of the code, for all arguments. For a positive salary and daily
  hours between \<open>pow2 (- 300)\<close> and \<open>pow2 300\<close> the result is a double within a relative
  error of \<open>1 / 2 ^ 51\<close> of the real quotient.
\<close>

theorem hourly_rate_from_salary:
  "calculateHourlyRate salary dailyHours = jsdiv salary (jsmul (Fin 30) dailyHours)
   \<and> (in_range 300 s \<and> in_range 300 d \<longrightarrow>
        (\<exists>q. calculateHourlyRate (Fin s) (Fin d) = Fin q
           \<and> \<bar>q - s / (30 * d)\<bar> \<le> s / (30 * d) / 2 ^ 51))"
proof -
  have "\<exists>q. calculateHourlyRate (Fin s) (Fin d) = Fin q
           \<and> \<bar>q - s / (30 * d)\<bar> \<le> s / (30 * d) / 2 ^ 51"
    if s: "in_range 300 s" and d: "in_range 300 d"
  proof -
    have "in_range 305 (30 * d)"
      using in_range_mult[OF in_range_30 d] by simp
    from round64_in_range[OF this] obtain e where
      e: "round64 (30 * d) = Fin e" "near (30 * d) e" "in_range 306 e"
      by auto
    have "in_range 606 (s / e)"
      using in_range_div[OF s e(3)] by simp
    from round64_in_range[OF this] obtain q where
      q: "round64 (s / e) = Fin q" "near (s / e) q"
      by auto
    have pos: "0 < s" "0 < d" "0 < e"
      using s d e(3) by (auto dest: in_range_pos)
    have "\<bar>q - s / (30 * d)\<bar> \<le> s / (30 * d) / 2 ^ 51"
      using pos e(2) q(2) by (rule quotient_error)
    moreover have "calculateHourlyRate (Fin s) (Fin d) = Fin q"
      using pos(3) by (simp add: calculateHourlyRate_def e(1) q(1))
    ultimately show ?thesis
      by blast
  qed
  then show ?thesis
    by (simp add: calculateHourlyRate_def)
qed


text \<open>A salary of 5000 at 8 hours a day.\<close>

theorem hourly_rate_from_salary_witness:
  "in_range 300 5000 \<and> in_range 300 8
   \<and> calculateHourlyRate (Fin 5000) (Fin 8) = jsdiv (Fin 5000) (jsmul (Fin 30) (Fin 8))
   \<and> (\<exists>q. calculateHourlyRate (Fin 5000) (Fin 8) = Fin q
         \<and> \<bar>q - 5000 / (30 * 8)\<bar> \<le> 5000 / (30 * 8) / 2 ^ 51)"
proof -
  have r: "in_range 300 5000" "in_range 300 8"
    by (simp_all add: in_range_def pow2_def)
  from hourly_rate_from_salary[of "Fin 5000" "Fin 8" 5000 8] r show ?thesis
    by blast
qed


lemma hourly_rate_example:
  "calculateHourlyRate (Fin 5000) (Fin 8) = Fin (5864062014805333 / 281474976710656)"
  by (simp add: calculateHourlyRate_def round64_eval)

end
